theory Spec2Isabelle
  imports Complex_Main
begin

section \<open>JavaScript values used by the handlers\<close>

text \<open>
  Strings are lists of characters; a character stands for one code unit in the range
  U+0000 to U+00FF. A value read from a cookie jar or from \<open>process.env\<close> is
  \<open>string option\<close>: \<open>None\<close> is \<open>undefined\<close>.
\<close>

definition truthy :: "string option \<Rightarrow> string option" where
  \<comment> \<open>The test \<open>if (!v)\<close> on a string-or-undefined value: \<open>undefined\<close> and the empty
      string are both falsy. The result is the value when it is truthy.\<close>
  "truthy v = (case v of None \<Rightarrow> None | Some s \<Rightarrow> if s = [] then None else Some s)"

definition startsWith :: "string \<Rightarrow> string \<Rightarrow> bool" where
  "startsWith s p = (take (length p) s = p)"

definition endsWith :: "string \<Rightarrow> string \<Rightarrow> bool" where
  "endsWith s p = (length p \<le> length s \<and> drop (length s - length p) s = p)"

datatype jsdate = ValidDate int | InvalidDate

subsection \<open>Numbers that hold a count\<close>

text \<open>
  A JavaScript number is a double. Every integer from 0 to \<open>2^53 = 9007199254740992\<close> is
  a double, and a product of such integers is computed exactly when it does not exceed
  \<open>2^53\<close>. A larger integer is held as a nearby double, or as \<open>Infinity\<close> when it is too
  large for a double; the model does not compute that value and writes \<open>Beyond\<close> for it.
  A value \<open>Beyond\<close> is positive, and stays \<open>Beyond\<close> when multiplied by a positive
  integer.
\<close>

datatype jsnat = Exactly nat | Beyond

definition to_jsnat :: "nat \<Rightarrow> jsnat" where
  "to_jsnat n = (if n \<le> 9007199254740992 then Exactly n else Beyond)"

fun js_times :: "jsnat \<Rightarrow> nat \<Rightarrow> jsnat" where
  \<comment> \<open>\<open>x * k\<close> for a positive integer \<open>k\<close>\<close>
  "js_times (Exactly a) k = to_jsnat (a * k)"
| "js_times Beyond k = Beyond"

fun not_positive :: "jsnat \<Rightarrow> bool" where
  \<comment> \<open>\<open>x <= 0\<close>\<close>
  "not_positive (Exactly a) = (a \<le> 0)"
| "not_positive Beyond = False"

subsection \<open>Console output\<close>

datatype level = ConsoleLog | ConsoleWarn | ConsoleError

type_synonym log = "(level \<times> string) list"

text \<open>
  A log entry keeps the console method and the message text, with template literals
  interpolated. Objects passed as further arguments (caught errors, decoded payloads)
  are printed by the runtime and are left out.
\<close>

fun show_nat :: "nat \<Rightarrow> string" where
  "show_nat n =
     (if n < 10 then [char_of (48 + n)]
      else show_nat (n div 10) @ [char_of (48 + n mod 10)])"

declare show_nat.simps [simp del]

section \<open>Persisted entities (models/User.ts, models/Goal.ts, models/Progress.ts)\<close>

record user =
  user_id :: string
  user_name :: string
  user_email :: string
  user_password :: string
  user_createdAt :: int
  user_updatedAt :: int

record goal =
  goal_id :: string
  goal_userId :: string
  goal_name :: string
  goal_description :: "string option"
  goal_targetMetric :: "string option"
  goal_targetUnit :: "string option"
  goal_deadline :: "int option"
  goal_createdAt :: int
  goal_updatedAt :: int

record progress_entry =
  pe_id :: string
  pe_goalId :: string
  pe_userId :: string
  pe_value :: real
  pe_date :: int
  pe_notes :: "string option"
  pe_createdAt :: int
  pe_updatedAt :: int

record db =
  users :: "user list"
  goals :: "goal list"
  progress :: "progress_entry list"

section \<open>Requests, responses and the environment\<close>

record request =
  cookies :: "(string \<times> string) list"
  origin :: string
  pathname :: string

record process_env =
  JWT_SECRET :: "string option"
  JWT_EXPIRES_IN :: "string option"
  NODE_ENV :: "string option"

record public_user =
  pu_id :: string
  pu_name :: string
  pu_email :: string
  pu_createdAt :: int
  pu_updatedAt :: int

datatype payload =
    GoalDetail goal "progress_entry list"
  | GoalData goal
  | ProgressData progress_entry
  | UserData public_user

type_synonym field_errors = "(string \<times> string list) list"

record api_response =
  success :: bool
  message :: "string option"
  error :: "string option"
  data :: "payload option"
  validationErrors :: "field_errors option"

record cookie =
  cookie_name :: string
  cookie_value :: string
  httpOnly :: bool
  secure :: bool
  sameSite :: string
  path :: string
  maxAge :: jsnat

record response =
  status :: nat
  body :: "api_response option"
  set_cookies :: "cookie list"

definition failure :: "string \<Rightarrow> api_response" where
  \<comment> \<open>\<open>{ success: false, message }\<close>\<close>
  "failure msg =
     \<lparr>success = False, message = Some msg, error = None, data = None,
      validationErrors = None\<rparr>"

definition failure_error :: "string \<Rightarrow> string \<Rightarrow> api_response" where
  \<comment> \<open>\<open>{ success: false, message, error }\<close>\<close>
  "failure_error msg err =
     \<lparr>success = False, message = Some msg, error = Some err, data = None,
      validationErrors = None\<rparr>"

definition success_data :: "payload \<Rightarrow> api_response" where
  \<comment> \<open>\<open>{ success: true, data }\<close>\<close>
  "success_data d =
     \<lparr>success = True, message = None, error = None, data = Some d,
      validationErrors = None\<rparr>"

definition json :: "api_response \<Rightarrow> nat \<Rightarrow> response" where
  \<comment> \<open>\<open>NextResponse.json(b, { status })\<close>\<close>
  "json b st = \<lparr>status = st, body = Some b, set_cookies = []\<rparr>"

section \<open>Token verification (jsonwebtoken)\<close>

text \<open>
  \<open>verify(token, secret)\<close> belongs to the token library. It either returns the decoded
  payload (a string, or an object of claims) or throws. The handlers receive it as a
  parameter. The library's error classes form a hierarchy: \<open>TokenExpiredError\<close> and
  \<open>NotBeforeError\<close> extend \<open>JsonWebTokenError\<close>.
\<close>

datatype claim_value = VString string | VNumber int | VBool bool | VNull | VObject

datatype decoded = DecodedString string | DecodedObject "(string \<times> claim_value) list"

datatype error_class = TokenExpiredError | NotBeforeError | JsonWebTokenError | OtherError

datatype verify_outcome = Returns decoded | Throws error_class string

type_synonym verifier = "string \<Rightarrow> string \<Rightarrow> verify_outcome"

fun instanceof_TokenExpiredError :: "error_class \<Rightarrow> bool" where
  "instanceof_TokenExpiredError TokenExpiredError = True"
| "instanceof_TokenExpiredError _ = False"

fun instanceof_JsonWebTokenError :: "error_class \<Rightarrow> bool" where
  "instanceof_JsonWebTokenError OtherError = False"
| "instanceof_JsonWebTokenError _ = True"

section \<open>middleware.ts\<close>

datatype mw_result = MwResponse response | MwRedirect string | MwNext

definition middleware :: "verifier \<Rightarrow> process_env \<Rightarrow> request \<Rightarrow> mw_result \<times> log" where
  "middleware vrfy env request =
     (let token = map_of (cookies request) ''access_token'';
          loginUrl = origin request @ ''/login'';
          isApiPath = startsWith (pathname request) ''/api/''
      in case truthy token of
           None \<Rightarrow>
             if isApiPath
             then (MwResponse (json (failure ''Authentication required'') 401), [])
             else (MwRedirect loginUrl, [])
         | Some token \<Rightarrow>
             (case truthy (JWT_SECRET env) of
                None \<Rightarrow>
                  (MwResponse (json (failure ''Internal Server Error: JWT secret missing'') 500),
                   [(ConsoleError, ''JWT_SECRET is not defined'')])
              | Some jwtSecret \<Rightarrow>
                  (case vrfy token jwtSecret of
                     Returns _ \<Rightarrow> (MwNext, [])
                   | Throws _ msg \<Rightarrow>
                       (if isApiPath
                        then MwResponse (json (failure ''Invalid or expired token'') 401)
                        else MwRedirect loginUrl,
                        [(ConsoleError, ''JWT Verification Error: '' @ msg)]))))"

definition config_matcher :: "string list" where
  "config_matcher = [''/dashboard/:path*'', ''/api/goals/:path*'', ''/api/progress/:path*'']"

definition matches_pattern :: "string \<Rightarrow> string \<Rightarrow> bool" where
  \<comment> \<open>The framework's matcher syntax: a pattern \<open>prefix/:path*\<close> matches the prefix
      itself and every path below it; a pattern without a parameter matches itself.\<close>
  "matches_pattern pat p =
     (if endsWith pat ''/:path*''
      then (let pre = take (length pat - length ''/:path*'') pat
            in p = pre \<or> startsWith p (pre @ ''/''))
      else p = pat)"

definition middleware_gate :: "verifier \<Rightarrow> process_env \<Rightarrow> request \<Rightarrow> mw_result \<times> log" where
  \<comment> \<open>The framework runs the middleware only on paths that \<open>config.matcher\<close> matches;
      any other request goes to its route handler directly.\<close>
  "middleware_gate vrfy env request =
     (if list_ex (\<lambda>pat. matches_pattern pat (pathname request)) config_matcher
      then middleware vrfy env request
      else (MwNext, []))"

section \<open>getVerifiedUserId: the three per-endpoint copies\<close>

definition getVerifiedUserId_goals ::
    "verifier \<Rightarrow> process_env \<Rightarrow> request \<Rightarrow> (response + string) \<times> log" where
  \<comment> \<open>app/api/goals/route.ts\<close>
  "getVerifiedUserId_goals vrfy env request =
     (case truthy (map_of (cookies request) ''access_token'') of
        None \<Rightarrow>
          (Inl (json (failure ''Authentication required.'') 401),
           [(ConsoleWarn, ''[API Goals] Authentication token missing.'')])
      | Some token \<Rightarrow>
          (case truthy (JWT_SECRET env) of
             None \<Rightarrow>
               (Inl (json (failure ''Internal Server Error: Server configuration missing.'') 500),
                [(ConsoleError, ''[API Goals] JWT_SECRET environment variable is not defined.'')])
           | Some jwtSecret \<Rightarrow>
               (case vrfy token jwtSecret of
                  Returns (DecodedObject claims) \<Rightarrow>
                    (case map_of claims ''userId'' of
                       Some (VString userId) \<Rightarrow> (Inr userId, [])
                     | _ \<Rightarrow>
                         (Inl (json (failure ''Invalid token payload.'') 401),
                          [(ConsoleError,
                            ''[API Goals] Invalid JWT payload structure after verification:'')]))
                | Returns (DecodedString _) \<Rightarrow>
                    (Inl (json (failure ''Invalid token payload.'') 401),
                     [(ConsoleError,
                       ''[API Goals] Invalid JWT payload structure after verification:'')])
                | Throws cls msg \<Rightarrow>
                    (Inl (json (failure
                       (if instanceof_TokenExpiredError cls then ''Token expired.''
                        else if instanceof_JsonWebTokenError cls then ''Invalid token.''
                        else ''Invalid or expired token.'')) 401),
                     [(ConsoleError, ''[API Goals] JWT Verification Error: '' @ msg)]))))"

definition getVerifiedUserId_goalItem ::
    "verifier \<Rightarrow> process_env \<Rightarrow> request \<Rightarrow> (response + string) \<times> log" where
  \<comment> \<open>app/api/goals/[goalId]/route.ts\<close>
  "getVerifiedUserId_goalItem vrfy env request =
     (case truthy (map_of (cookies request) ''access_token'') of
        None \<Rightarrow>
          (Inl (json (failure ''Authentication required.'') 401),
           [(ConsoleWarn, ''[API Goals] Authentication token missing.'')])
      | Some token \<Rightarrow>
          (case truthy (JWT_SECRET env) of
             None \<Rightarrow>
               (Inl (json (failure ''Internal Server Error: Server configuration missing.'') 500),
                [(ConsoleError, ''[API Goals] JWT_SECRET environment variable is not defined.'')])
           | Some jwtSecret \<Rightarrow>
               (case vrfy token jwtSecret of
                  Returns (DecodedObject claims) \<Rightarrow>
                    (case map_of claims ''userId'' of
                       Some (VString userId) \<Rightarrow>
                         if length userId > 0 then (Inr userId, [])
                         else
                           (Inl (json (failure ''Invalid token payload.'') 401),
                            [(ConsoleError,
                              ''[API Goals] Invalid JWT payload: userId is an empty string.'')])
                     | _ \<Rightarrow>
                         (Inl (json (failure ''Invalid token payload.'') 401),
                          [(ConsoleError,
                            ''[API Goals] Invalid JWT payload structure after verification:'')]))
                | Returns (DecodedString _) \<Rightarrow>
                    (Inl (json (failure ''Invalid token payload.'') 401),
                     [(ConsoleError,
                       ''[API Goals] Invalid JWT payload structure after verification:'')])
                | Throws cls msg \<Rightarrow>
                    (Inl (json (failure
                       (if instanceof_TokenExpiredError cls then ''Token expired.''
                        else if instanceof_JsonWebTokenError cls then ''Invalid token.''
                        else ''Invalid or expired token.'')) 401),
                     [(ConsoleError, ''[API Goals] JWT Verification Error: '' @ msg)]))))"

definition getVerifiedUserId_progress ::
    "verifier \<Rightarrow> process_env \<Rightarrow> request \<Rightarrow> (response + string) \<times> log" where
  \<comment> \<open>app/api/progress/route.ts\<close>
  "getVerifiedUserId_progress vrfy env request =
     (case truthy (map_of (cookies request) ''access_token'') of
        None \<Rightarrow>
          (Inl (json (failure ''Authentication required.'') 401),
           [(ConsoleWarn, ''[API Progress] Authentication token missing.'')])
      | Some token \<Rightarrow>
          (case truthy (JWT_SECRET env) of
             None \<Rightarrow>
               (Inl (json (failure ''Internal Server Error: Server configuration missing.'') 500),
                [(ConsoleError,
                  ''[API Progress] JWT_SECRET environment variable is not defined.'')])
           | Some jwtSecret \<Rightarrow>
               (case vrfy token jwtSecret of
                  Returns (DecodedObject claims) \<Rightarrow>
                    (case map_of claims ''userId'' of
                       Some (VString userId) \<Rightarrow>
                         if length userId > 0 then (Inr userId, [])
                         else
                           (Inl (json (failure ''Invalid token payload.'') 401),
                            [(ConsoleError,
                              ''[API Progress] Invalid JWT payload: userId is an empty string.'')])
                     | _ \<Rightarrow>
                         (Inl (json (failure ''Invalid token payload.'') 401),
                          [(ConsoleError,
                            ''[API Progress] Invalid JWT payload structure after verification:'')]))
                | Returns (DecodedString _) \<Rightarrow>
                    (Inl (json (failure ''Invalid token payload.'') 401),
                     [(ConsoleError,
                       ''[API Progress] Invalid JWT payload structure after verification:'')])
                | Throws cls msg \<Rightarrow>
                    (Inl (json (failure
                       (if instanceof_TokenExpiredError cls then ''Token expired.''
                        else if instanceof_JsonWebTokenError cls then ''Invalid token.''
                        else ''Invalid or expired token.'')) 401),
                     [(ConsoleError, ''[API Progress] JWT Verification Error: '' @ msg)]))))"

section \<open>The runtime: libraries and the database\<close>

text \<open>
  What the handlers call but do not define is passed in: the token library, the object-id
  syntax check, date parsing, password hashing and comparison, the id generator and the
  clock. \<open>jwt_sign\<close>, \<open>bcrypt_compare\<close> and \<open>bcrypt_hash\<close> return \<open>None\<close> when the
  library call throws.
\<close>

record runtime =
  jwt_verify :: verifier
  jwt_sign :: "string \<Rightarrow> string \<Rightarrow> string \<Rightarrow> string option"
  ObjectId_isValid :: "string \<Rightarrow> bool"
  newDate :: "string \<Rightarrow> jsdate"
  bcrypt_compare :: "string \<Rightarrow> string \<Rightarrow> bool option"
  bcrypt_hash :: "string \<Rightarrow> string option"
  new_ObjectId :: string
  now :: int

datatype db_error = ValidationError string | DuplicateEmailKey | OtherDbError

text \<open>
  A database call either completes on the stored collections or throws (connection lost,
  cast error, validation error). Which calls throw is an input: one entry for
  \<open>connectDB\<close> (lib/db.ts, of which the handlers only observe whether it throws) and one
  for each model operation a handler performs. A call that throws leaves the collections
  as they were.
\<close>

record faults =
  connect_fails :: bool
  user_find_fails :: "db_error option"
  user_create_fails :: "db_error option"
  goal_op_fails :: "db_error option"
  progress_op_fails :: "db_error option"

fun remove_first :: "('a \<Rightarrow> bool) \<Rightarrow> 'a list \<Rightarrow> 'a list" where
  "remove_first P [] = []"
| "remove_first P (x # xs) = (if P x then xs else x # remove_first P xs)"

fun update_first :: "('a \<Rightarrow> bool) \<Rightarrow> ('a \<Rightarrow> 'a) \<Rightarrow> 'a list \<Rightarrow> 'a list" where
  "update_first P f [] = []"
| "update_first P f (x # xs) = (if P x then f x # xs else x # update_first P f xs)"

definition owned_by :: "string \<Rightarrow> string \<Rightarrow> goal \<Rightarrow> bool" where
  \<comment> \<open>the filter \<open>{ _id: goalId, userId: userId }\<close>\<close>
  "owned_by goalId userId g = (goal_id g = goalId \<and> goal_userId g = userId)"

definition GoalModel_findOne ::
    "faults \<Rightarrow> db \<Rightarrow> string \<Rightarrow> string \<Rightarrow> db_error + goal option" where
  "GoalModel_findOne f d goalId userId =
     (case goal_op_fails f of
        Some e \<Rightarrow> Inl e
      | None \<Rightarrow> Inr (find (owned_by goalId userId) (goals d)))"

definition ProgressModel_find_sorted ::
    "faults \<Rightarrow> db \<Rightarrow> string \<Rightarrow> db_error + progress_entry list" where
  \<comment> \<open>\<open>find({ goalId }).sort({ date: -1 })\<close>\<close>
  "ProgressModel_find_sorted f d goalId =
     (case progress_op_fails f of
        Some e \<Rightarrow> Inl e
      | None \<Rightarrow>
          Inr (sort_key (\<lambda>p. - pe_date p) (filter (\<lambda>p. pe_goalId p = goalId) (progress d))))"

datatype deadline_in = DeadlineString string | DeadlineDate jsdate

record update_goal =
  upd_name :: "string option"
  upd_description :: "string option"
  upd_targetMetric :: "string option"
  upd_targetUnit :: "string option"
  upd_deadline :: "deadline_in option"

definition apply_update :: "update_goal \<Rightarrow> int \<Rightarrow> goal \<Rightarrow> goal" where
  \<comment> \<open>The fields present in the update replace the stored ones; \<open>timestamps: true\<close>
      refreshes \<open>updatedAt\<close>.\<close>
  "apply_update u t g =
     g\<lparr>goal_name := (case upd_name u of None \<Rightarrow> goal_name g | Some n \<Rightarrow> n),
       goal_description :=
         (case upd_description u of None \<Rightarrow> goal_description g | Some x \<Rightarrow> Some x),
       goal_targetMetric :=
         (case upd_targetMetric u of None \<Rightarrow> goal_targetMetric g | Some x \<Rightarrow> Some x),
       goal_targetUnit :=
         (case upd_targetUnit u of None \<Rightarrow> goal_targetUnit g | Some x \<Rightarrow> Some x),
       goal_deadline :=
         (case upd_deadline u of
            None \<Rightarrow> goal_deadline g
          | Some (DeadlineDate (ValidDate ms)) \<Rightarrow> Some ms
          | Some _ \<Rightarrow> None),
       goal_updatedAt := t\<rparr>"

definition GoalModel_findOneAndUpdate ::
    "faults \<Rightarrow> runtime \<Rightarrow> db \<Rightarrow> string \<Rightarrow> string \<Rightarrow> update_goal
      \<Rightarrow> (db_error + goal option) \<times> db" where
  \<comment> \<open>with \<open>{ new: true, runValidators: true }\<close>: the updated document is returned\<close>
  "GoalModel_findOneAndUpdate f rt d goalId userId u =
     (case goal_op_fails f of
        Some e \<Rightarrow> (Inl e, d)
      | None \<Rightarrow>
          (case find (owned_by goalId userId) (goals d) of
             None \<Rightarrow> (Inr None, d)
           | Some g \<Rightarrow>
               (Inr (Some (apply_update u (now rt) g)),
                d\<lparr>goals := update_first (owned_by goalId userId)
                               (apply_update u (now rt)) (goals d)\<rparr>)))"

definition GoalModel_deleteOne ::
    "faults \<Rightarrow> db \<Rightarrow> string \<Rightarrow> string \<Rightarrow> (db_error + nat) \<times> db" where
  \<comment> \<open>the result is \<open>deletedCount\<close>\<close>
  "GoalModel_deleteOne f d goalId userId =
     (case goal_op_fails f of
        Some e \<Rightarrow> (Inl e, d)
      | None \<Rightarrow>
          (Inr (if list_ex (owned_by goalId userId) (goals d) then 1 else 0),
           d\<lparr>goals := remove_first (owned_by goalId userId) (goals d)\<rparr>))"

definition ProgressModel_deleteMany ::
    "faults \<Rightarrow> db \<Rightarrow> string \<Rightarrow> (db_error + nat) \<times> db" where
  "ProgressModel_deleteMany f d goalId =
     (case progress_op_fails f of
        Some e \<Rightarrow> (Inl e, d)
      | None \<Rightarrow>
          (Inr (length (filter (\<lambda>p. pe_goalId p = goalId) (progress d))),
           d\<lparr>progress := filter (\<lambda>p. pe_goalId p \<noteq> goalId) (progress d)\<rparr>))"

record log_progress =
  lp_goalId :: string
  lp_value :: real
  lp_date :: string
  lp_notes :: "string option"

definition ProgressModel_create ::
    "faults \<Rightarrow> runtime \<Rightarrow> db \<Rightarrow> log_progress \<Rightarrow> string \<Rightarrow> jsdate
      \<Rightarrow> (db_error + progress_entry) \<times> db" where
  \<comment> \<open>The schema requires a date; an invalid \<open>Date\<close> fails validation (the message is
      the library's, shortened here). The new document gets a fresh id and both
      timestamps.\<close>
  "ProgressModel_create f rt d v userId dt =
     (case progress_op_fails f of
        Some e \<Rightarrow> (Inl e, d)
      | None \<Rightarrow>
          (case dt of
             InvalidDate \<Rightarrow> (Inl (ValidationError ''Progress validation failed: date''), d)
           | ValidDate ms \<Rightarrow>
               (let doc = \<lparr>pe_id = new_ObjectId rt, pe_goalId = lp_goalId v,
                           pe_userId = userId, pe_value = lp_value v, pe_date = ms,
                           pe_notes = lp_notes v, pe_createdAt = now rt,
                           pe_updatedAt = now rt\<rparr>
                in (Inr doc, d\<lparr>progress := progress d @ [doc]\<rparr>))))"

text \<open>
  A request body as the handler sees it: \<open>request.json()\<close> throws, or the schema's
  \<open>safeParse\<close> rejects the parsed value (with its flattened field errors), or it yields
  the validated data.
\<close>

datatype 'a json_body = Unparsable | SchemaRejected field_errors | Validated 'a

section \<open>app/api/goals/[goalId]/route.ts\<close>

definition not_found :: response where
  "not_found = json (failure ''Goal not found or you do not have permission.'') 404"

definition invalid_goal_id :: response where
  "invalid_goal_id = json (failure ''Invalid Goal ID format.'') 400"

definition no_connection :: response where
  "no_connection = json (failure ''Internal Server Error: Could not connect to database.'') 500"

definition GET_goalItem ::
    "runtime \<Rightarrow> faults \<Rightarrow> process_env \<Rightarrow> db \<Rightarrow> request \<Rightarrow> string \<Rightarrow> response \<times> log" where
  "GET_goalItem rt f env d request goalId =
     (if goalId = [] \<or> \<not> ObjectId_isValid rt goalId then (invalid_goal_id, [])
      else if connect_fails f
      then (no_connection,
            [(ConsoleError, ''[API Goal Detail GET] Database Connection Error:'')])
      else
        (case getVerifiedUserId_goalItem (jwt_verify rt) env request of
           (Inl resp, lg) \<Rightarrow> (resp, lg)
         | (Inr userId, lg) \<Rightarrow>
             (let db_failed =
                    (json (failure ''Internal Server Error: Could not retrieve goal details.'') 500,
                     lg @ [(ConsoleError,
                       ''[API Goal Detail GET] Database Error fetching goal '' @ goalId @ '':'')])
              in case GoalModel_findOne f d goalId userId of
                   Inl _ \<Rightarrow> db_failed
                 | Inr None \<Rightarrow>
                     (not_found,
                      lg @ [(ConsoleLog,
                        ''[API Goal Detail GET] Goal not found or permission denied for goalId: ''
                          @ goalId @ '', userId: '' @ userId)])
                 | Inr (Some g) \<Rightarrow>
                     (case ProgressModel_find_sorted f d goalId of
                        Inl _ \<Rightarrow> db_failed
                      | Inr progressEntries \<Rightarrow>
                          (json (success_data (GoalDetail g progressEntries)) 200,
                           lg @ [(ConsoleLog,
                             ''[API Goal Detail GET] Successfully fetched goal '' @ goalId
                               @ '' and '' @ show_nat (length progressEntries)
                               @ '' progress entries for user '' @ userId)])))))"

definition convert_deadline :: "runtime \<Rightarrow> update_goal \<Rightarrow> update_goal" where
  \<comment> \<open>Step 6 of PUT: a non-empty deadline string becomes a \<open>Date\<close>; a deadline that is an
      invalid \<open>Date\<close> is deleted from the update. (\<open>new Date(s)\<close> never throws, so the
      handler's \<open>catch\<close> around it has no run.)\<close>
  "convert_deadline rt u =
     (let u1 = (case upd_deadline u of
                  Some (DeadlineString s) \<Rightarrow>
                    if s = [] then u else u\<lparr>upd_deadline := Some (DeadlineDate (newDate rt s))\<rparr>
                | _ \<Rightarrow> u)
      in case upd_deadline u1 of
           Some (DeadlineDate InvalidDate) \<Rightarrow> u1\<lparr>upd_deadline := None\<rparr>
         | _ \<Rightarrow> u1)"

definition no_keys :: "update_goal \<Rightarrow> bool" where
  \<comment> \<open>\<open>Object.keys(updateData).length === 0\<close>\<close>
  "no_keys u =
     (upd_name u = None \<and> upd_description u = None \<and> upd_targetMetric u = None
      \<and> upd_targetUnit u = None \<and> upd_deadline u = None)"

definition PUT_goalItem ::
    "runtime \<Rightarrow> faults \<Rightarrow> process_env \<Rightarrow> db \<Rightarrow> request \<Rightarrow> update_goal json_body \<Rightarrow> string
      \<Rightarrow> response \<times> db \<times> log" where
  "PUT_goalItem rt f env d request rawBody goalId =
     (if goalId = [] \<or> \<not> ObjectId_isValid rt goalId then (invalid_goal_id, d, [])
      else if connect_fails f
      then (no_connection, d,
            [(ConsoleError, ''[API Goal Detail PUT] Database Connection Error:'')])
      else
        (case getVerifiedUserId_goalItem (jwt_verify rt) env request of
           (Inl resp, lg) \<Rightarrow> (resp, d, lg)
         | (Inr userId, lg) \<Rightarrow>
             (case rawBody of
                Unparsable \<Rightarrow>
                  (json (failure ''Invalid request body: Could not parse JSON.'') 400, d,
                   lg @ [(ConsoleError, ''[API Goal Detail PUT] Request Body Parsing Error:'')])
              | SchemaRejected fieldErrors \<Rightarrow>
                  (json \<lparr>success = False,
                         message = Some ''Invalid goal update data provided.'',
                         error = Some ''Validation failed'', data = None,
                         validationErrors = Some fieldErrors\<rparr> 400, d,
                   lg @ [(ConsoleLog, ''[API Goal Detail PUT] Validation Error:'')])
              | Validated validated \<Rightarrow>
                  (let updateData = convert_deadline rt validated
                   in if no_keys updateData
                      then (json (failure ''No update data provided.'') 400, d, lg)
                      else
                        (case GoalModel_findOneAndUpdate f rt d goalId userId updateData of
                           (Inl e, d') \<Rightarrow>
                             (let lg' = lg @ [(ConsoleError,
                                    ''[API Goal Detail PUT] Database Error updating goal ''
                                      @ goalId @ '':'')]
                              in case e of
                                   ValidationError msg \<Rightarrow>
                                     (json (failure_error
                                        ''Database validation failed during update.'' msg) 400,
                                      d', lg')
                                 | _ \<Rightarrow>
                                     (json (failure
                                        ''Internal Server Error: Could not update goal.'') 500,
                                      d', lg'))
                         | (Inr None, d') \<Rightarrow>
                             (not_found, d',
                              lg @ [(ConsoleLog,
                                ''[API Goal Detail PUT] Goal not found or permission denied for update: goalId: ''
                                  @ goalId @ '', userId: '' @ userId)])
                         | (Inr (Some updatedGoal), d') \<Rightarrow>
                             (json (success_data (GoalData updatedGoal)) 200, d',
                              lg @ [(ConsoleLog,
                                ''[API Goal Detail PUT] Goal updated successfully: goalId: ''
                                  @ goalId @ '', userId: '' @ userId)]))))))"

definition DELETE_goalItem ::
    "runtime \<Rightarrow> faults \<Rightarrow> process_env \<Rightarrow> db \<Rightarrow> request \<Rightarrow> string \<Rightarrow> response \<times> db \<times> log" where
  "DELETE_goalItem rt f env d request goalId =
     (if goalId = [] \<or> \<not> ObjectId_isValid rt goalId then (invalid_goal_id, d, [])
      else if connect_fails f
      then (no_connection, d,
            [(ConsoleError, ''[API Goal Detail DELETE] Database Connection Error:'')])
      else
        (case getVerifiedUserId_goalItem (jwt_verify rt) env request of
           (Inl resp, lg) \<Rightarrow> (resp, d, lg)
         | (Inr userId, lg) \<Rightarrow>
             (case GoalModel_deleteOne f d goalId userId of
                (Inl _, d1) \<Rightarrow>
                  (json (failure ''Internal Server Error: Could not delete goal.'') 500, d1,
                   lg @ [(ConsoleError,
                     ''[API Goal Detail DELETE] Database Error deleting goal '' @ goalId @ '':'')])
              | (Inr deletedCount, d1) \<Rightarrow>
                  if deletedCount = 0
                  then (not_found, d1,
                        lg @ [(ConsoleLog,
                          ''[API Goal Detail DELETE] Goal not found or permission denied for deletion: goalId: ''
                            @ goalId @ '', userId: '' @ userId)])
                  else
                    (let lg1 = lg @ [(ConsoleLog,
                           ''[API Goal Detail DELETE] Goal deleted successfully: goalId: ''
                             @ goalId @ '', userId: '' @ userId)]
                     in case ProgressModel_deleteMany f d1 goalId of
                          (Inr n, d2) \<Rightarrow>
                            (\<lparr>status = 204, body = None, set_cookies = []\<rparr>, d2,
                             lg1 @ [(ConsoleLog,
                               ''[API Goal Detail DELETE] Deleted '' @ show_nat n
                                 @ '' associated progress entries for goalId: '' @ goalId)])
                        | (Inl _, d2) \<Rightarrow>
                            (\<lparr>status = 204, body = None, set_cookies = []\<rparr>, d2,
                             lg1 @ [(ConsoleError,
                               ''[API Goal Detail DELETE] Error deleting progress entries for goalId ''
                                 @ goalId @ '':'')])))))"

section \<open>app/api/progress/route.ts\<close>

definition POST_progress ::
    "runtime \<Rightarrow> faults \<Rightarrow> process_env \<Rightarrow> db \<Rightarrow> request \<Rightarrow> log_progress json_body
      \<Rightarrow> response \<times> db \<times> log" where
  "POST_progress rt f env d request rawBody =
     (if connect_fails f
      then (no_connection, d,
            [(ConsoleError, ''[API Progress POST] Database Connection Error:'')])
      else
        (case getVerifiedUserId_progress (jwt_verify rt) env request of
           (Inl resp, lg) \<Rightarrow> (resp, d, lg)
         | (Inr userId, lg) \<Rightarrow>
             (case rawBody of
                Unparsable \<Rightarrow>
                  (json (failure ''Invalid request body: Could not parse JSON.'') 400, d,
                   lg @ [(ConsoleError, ''[API Progress POST] Request Body Parsing Error:'')])
              | SchemaRejected fieldErrors \<Rightarrow>
                  (json \<lparr>success = False, message = Some ''Invalid progress data provided.'',
                         error = Some ''Validation failed'', data = None,
                         validationErrors = Some fieldErrors\<rparr> 400, d,
                   lg @ [(ConsoleLog, ''[API Progress POST] Validation Error:'')])
              | Validated validatedData \<Rightarrow>
                  (let caught = (\<lambda>e d'.
                         case e of
                           ValidationError msg \<Rightarrow>
                             (json (failure_error
                                ''Database validation failed while saving progress.'' msg) 400,
                              d', lg @ [(ConsoleError,
                                ''[API Progress POST] Mongoose Validation Error:'')])
                         | _ \<Rightarrow>
                             (json (failure
                                ''Internal Server Error: Could not save progress entry.'') 500,
                              d', lg @ [(ConsoleError,
                                ''[API Progress POST] Database Error creating progress:'')]))
                   in case GoalModel_findOne f d (lp_goalId validatedData) userId of
                        Inl e \<Rightarrow> caught e d
                      | Inr None \<Rightarrow>
                          (not_found, d,
                           lg @ [(ConsoleLog,
                             ''[API Progress POST] Goal ownership check failed: Goal not found or permission denied for goalId: ''
                               @ lp_goalId validatedData @ '', userId: '' @ userId)])
                      | Inr (Some g) \<Rightarrow>
                          (case ProgressModel_create f rt d validatedData userId
                                  (newDate rt (lp_date validatedData)) of
                             (Inl e, d') \<Rightarrow> caught e d'
                           | (Inr newProgressDoc, d') \<Rightarrow>
                               (json (success_data (ProgressData newProgressDoc)) 201, d',
                                lg @ [(ConsoleLog,
                                  ''[API Progress POST] Progress created successfully for goalId: ''
                                    @ lp_goalId validatedData @ '', userId: '' @ userId)]))))))"

section \<open>app/api/auth/route.ts\<close>

subsection \<open>String methods\<close>

text \<open>
  The duration parser is defined on JavaScript strings in full: lists of UTF-16 code
  units, written as natural numbers. \<open>utf16\<close> gives the code units of a string of the
  model.
\<close>

definition utf16 :: "string \<Rightarrow> nat list" where
  "utf16 s = map of_char s"

definition isWhiteSpace :: "nat \<Rightarrow> bool" where
  \<comment> \<open>the code units that \<open>String.prototype.trim\<close> strips: the white space characters
      (tab, vertical tab, form feed, space, no-break space, U+1680, U+2000 to U+200A,
      U+202F, U+205F, U+3000, U+FEFF) and the line terminators (line feed, carriage
      return, U+2028, U+2029)\<close>
  "isWhiteSpace c =
     (c \<in> {9, 10, 11, 12, 13, 32, 160, 5760, 8232, 8233, 8239, 8287, 12288, 65279}
      \<or> (8192 \<le> c \<and> c \<le> 8202))"

definition trim :: "nat list \<Rightarrow> nat list" where
  "trim s = rev (dropWhile isWhiteSpace (rev (dropWhile isWhiteSpace s)))"

definition trim_string :: "string \<Rightarrow> string" where
  \<comment> \<open>\<open>trim\<close> on a string of the model\<close>
  "trim_string s = map char_of (trim (utf16 s))"

definition toLowerCase :: "string \<Rightarrow> string" where
  \<comment> \<open>A to Z, and the upper-case letters of U+00C0 to U+00DE (not the sign U+00D7),
      move 32 code units up\<close>
  "toLowerCase s =
     map (\<lambda>c. let n = (of_char c :: nat)
              in if (65 \<le> n \<and> n \<le> 90) \<or> (192 \<le> n \<and> n \<le> 222 \<and> n \<noteq> 215)
                 then char_of (n + 32) else c) s"

definition isDigit :: "nat \<Rightarrow> bool" where
  \<comment> \<open>the class \<open>\d\<close>: the code units of 0 to 9\<close>
  "isDigit c = (48 \<le> c \<and> c \<le> 57)"

definition match_duration :: "nat list \<Rightarrow> (nat list \<times> nat) option" where
  \<comment> \<open>\<open>s.match(/^(\d+)([dhms])$/)\<close>: the two captured groups, or \<open>None\<close> for \<open>null\<close>\<close>
  "match_duration s =
     (if s = [] then None
      else if butlast s \<noteq> [] \<and> list_all isDigit (butlast s)
              \<and> last s \<in> set (utf16 ''dhms'')
      then Some (butlast s, last s)
      else None)"

subsection \<open>parseInt\<close>

definition digits_value :: "nat list \<Rightarrow> nat" where
  \<comment> \<open>the integer that a string of digits denotes in base ten\<close>
  "digits_value s = foldl (\<lambda>acc c. 10 * acc + (c - 48)) 0 s"

definition parseInt10 :: "nat list \<Rightarrow> jsnat" where
  \<comment> \<open>\<open>parseInt(s, 10)\<close> on a non-empty string of digits: never \<open>NaN\<close>\<close>
  "parseInt10 s = to_jsnat (digits_value s)"

subsection \<open>parseJwtExpiresIn\<close>

definition parseJwtExpiresIn :: "nat list \<Rightarrow> jsnat option" where
  \<comment> \<open>\<open>isNaN(value)\<close> is false on a string of digits, so the test is \<open>value <= 0\<close>\<close>
  "parseJwtExpiresIn expiresIn =
     (case match_duration (trim expiresIn) of
        None \<Rightarrow> None
      | Some (digits, unit) \<Rightarrow>
          (let v = parseInt10 digits
           in if not_positive v then None
              else if unit = of_char CHR ''d''
              then Some (js_times (js_times (js_times v 24) 60) 60)
              else if unit = of_char CHR ''h'' then Some (js_times (js_times v 60) 60)
              else if unit = of_char CHR ''m'' then Some (js_times v 60)
              else if unit = of_char CHR ''s'' then Some v
              else None))"

subsection \<open>The user model\<close>

definition UserModel_findOne :: "faults \<Rightarrow> db \<Rightarrow> string \<Rightarrow> db_error + user option" where
  \<comment> \<open>\<open>findOne({ email })\<close>\<close>
  "UserModel_findOne f d email =
     (case user_find_fails f of
        Some e \<Rightarrow> Inl e
      | None \<Rightarrow> Inr (find (\<lambda>u. user_email u = email) (users d)))"

definition comparePassword :: "runtime \<Rightarrow> user \<Rightarrow> string \<Rightarrow> bool \<times> log" where
  \<comment> \<open>models/User.ts: an error thrown by the comparison is logged and answered \<open>false\<close>\<close>
  "comparePassword rt u candidatePassword =
     (case bcrypt_compare rt candidatePassword (user_password u) of
        Some isMatch \<Rightarrow> (isMatch, [])
      | None \<Rightarrow> (False, [(ConsoleError, ''Error comparing password:'')]))"

record signup_details =
  su_name :: string
  su_email :: string
  su_password :: string

record login_credentials =
  lc_email :: string
  lc_password :: string

definition UserModel_create ::
    "faults \<Rightarrow> runtime \<Rightarrow> db \<Rightarrow> signup_details \<Rightarrow> (db_error + user) \<times> db \<times> log" where
  \<comment> \<open>models/User.ts: the schema trims the name, trims and lower-cases the email, keeps
      emails unique, and the pre-save hook replaces the password by its hash\<close>
  "UserModel_create f rt d v =
     (case user_create_fails f of
        Some e \<Rightarrow> (Inl e, d, [])
      | None \<Rightarrow>
          (case bcrypt_hash rt (su_password v) of
             None \<Rightarrow> (Inl OtherDbError, d, [(ConsoleError, ''Error hashing password:'')])
           | Some hashedPassword \<Rightarrow>
               (let email = toLowerCase (trim_string (su_email v))
                in if list_ex (\<lambda>u. user_email u = email) (users d)
                   then (Inl DuplicateEmailKey, d, [])
                   else
                     (let doc = \<lparr>user_id = new_ObjectId rt, user_name = trim_string (su_name v),
                                 user_email = email, user_password = hashedPassword,
                                 user_createdAt = now rt, user_updatedAt = now rt\<rparr>
                      in (Inr doc, d\<lparr>users := users d @ [doc]\<rparr>, [])))))"

subsection \<open>POST\<close>

text \<open>
  The body of an auth request as the handler sees it: \<open>request.json()\<close> throws; or the
  action schema rejects it; or the action is \<open>signup\<close> or \<open>login\<close>, with the result of
  that action's schema (\<open>None\<close> when it rejects the body). The action schema admits the
  two actions only, so the handler's last \<open>else\<close> has no run.
\<close>

datatype auth_body =
    AuthUnparsable
  | AuthInvalidAction
  | AuthSignup "signup_details option"
  | AuthLogin "login_credentials option"

definition invalid_credentials :: response where
  "invalid_credentials = json (failure ''Invalid email or password.'') 401"

definition access_token_cookie :: "process_env \<Rightarrow> string \<Rightarrow> jsnat \<Rightarrow> cookie" where
  "access_token_cookie env token maxAgeSeconds =
     \<lparr>cookie_name = ''access_token'', cookie_value = token, httpOnly = True,
      secure = (NODE_ENV env = Some ''production''), sameSite = ''lax'', path = ''/'',
      maxAge = maxAgeSeconds\<rparr>"

definition login :: "runtime \<Rightarrow> faults \<Rightarrow> process_env \<Rightarrow> db \<Rightarrow> login_credentials \<Rightarrow> response \<times> log" where
  \<comment> \<open>the login branch of POST, after the login schema has accepted the body\<close>
  "login rt f env d creds =
     (let email = lc_email creds; candidatePassword = lc_password creds
      in case UserModel_findOne f d (toLowerCase email) of
           Inl _ \<Rightarrow>
             (json (failure ''Internal Server Error during login process.'') 500,
              [(ConsoleError, ''[API Auth] Login Database/Comparison Error:'')])
         | Inr None \<Rightarrow>
             (invalid_credentials,
              [(ConsoleLog, ''[API Auth] Login attempt failed: User not found - '' @ email)])
         | Inr (Some u) \<Rightarrow>
             (case comparePassword rt u candidatePassword of
                (isPasswordMatch, lg) \<Rightarrow>
                  if \<not> isPasswordMatch
                  then (invalid_credentials,
                        lg @ [(ConsoleLog,
                          ''[API Auth] Login attempt failed: Incorrect password - '' @ email)])
                  else
                    (case (truthy (JWT_SECRET env), truthy (JWT_EXPIRES_IN env)) of
                       (Some jwtSecret, Some jwtExpiresIn) \<Rightarrow>
                         (case parseJwtExpiresIn (utf16 jwtExpiresIn) of
                            None \<Rightarrow>
                              (json (failure
                                 ''Internal Server Error: Invalid JWT expiration format.'') 500,
                               lg @ [(ConsoleError,
                                 ''[API Auth] Invalid JWT_EXPIRES_IN format: '' @ jwtExpiresIn)])
                          | Some maxAgeSeconds \<Rightarrow>
                              (case jwt_sign rt (user_id u) jwtSecret jwtExpiresIn of
                                 None \<Rightarrow>
                                   (json (failure
                                      ''Internal Server Error: Could not create session.'') 500,
                                    lg @ [(ConsoleError, ''[API Auth] JWT Signing Error:'')])
                               | Some token \<Rightarrow>
                                   (\<lparr>status = 200,
                                     body = Some (success_data (UserData
                                       \<lparr>pu_id = user_id u, pu_name = user_name u,
                                        pu_email = user_email u,
                                        pu_createdAt = user_createdAt u,
                                        pu_updatedAt = user_updatedAt u\<rparr>)),
                                     set_cookies =
                                       [access_token_cookie env token maxAgeSeconds]\<rparr>,
                                    lg @ [(ConsoleLog,
                                      ''[API Auth] Login successful for email: '' @ email)])))
                     | _ \<Rightarrow>
                         (json (failure
                            ''Internal Server Error: JWT configuration missing.'') 500,
                          lg @ [(ConsoleError,
                            ''[API Auth] JWT configuration missing in environment variables.'')]))))"

definition signup :: "runtime \<Rightarrow> faults \<Rightarrow> db \<Rightarrow> signup_details \<Rightarrow> response \<times> db \<times> log" where
  \<comment> \<open>the signup branch of POST, after the signup schema has accepted the body\<close>
  "signup rt f d v =
     (let email_in_use = json (failure ''Email already in use.'') 409;
          caught = (\<lambda>e d' lg.
            (case e of
               DuplicateEmailKey \<Rightarrow> email_in_use
             | _ \<Rightarrow> json (failure ''Internal Server Error: Could not create user.'') 500,
             d', lg @ [(ConsoleError, ''[API Auth] Signup Database Error:'')]))
      in case UserModel_findOne f d (toLowerCase (su_email v)) of
           Inl e \<Rightarrow> caught e d []
         | Inr (Some existingUser) \<Rightarrow>
             (email_in_use, d,
              [(ConsoleLog,
                ''[API Auth] Signup attempt failed: Email already in use - '' @ su_email v)])
         | Inr None \<Rightarrow>
             (case UserModel_create f rt d v of
                (Inl e, d', lg) \<Rightarrow> caught e d' lg
              | (Inr _, d', lg) \<Rightarrow>
                  (json \<lparr>success = True, message = Some ''Signup successful. Please login.'',
                         error = None, data = None, validationErrors = None\<rparr> 201, d',
                   lg @ [(ConsoleLog,
                     ''[API Auth] Signup successful for email: '' @ su_email v)])))"

definition POST_auth ::
    "runtime \<Rightarrow> faults \<Rightarrow> process_env \<Rightarrow> db \<Rightarrow> auth_body \<Rightarrow> response \<times> db \<times> log" where
  "POST_auth rt f env d rawBody =
     (if connect_fails f
      then (no_connection, d, [(ConsoleError, ''[API Auth] Database Connection Error:'')])
      else
        (case rawBody of
           AuthUnparsable \<Rightarrow>
             (json (failure ''Invalid request body: Could not parse JSON.'') 400, d,
              [(ConsoleError, ''[API Auth] Request Body Parsing Error:'')])
         | AuthInvalidAction \<Rightarrow>
             (json (failure ''Invalid action specified.'') 400, d,
              [(ConsoleLog, ''[API Auth] Invalid Action:'')])
         | AuthSignup None \<Rightarrow>
             (json (failure ''Invalid signup data.'') 400, d,
              [(ConsoleLog, ''[API Auth] Signup Validation Error:'')])
         | AuthSignup (Some v) \<Rightarrow> signup rt f d v
         | AuthLogin None \<Rightarrow>
             (json (failure ''Invalid login data.'') 400, d,
              [(ConsoleLog, ''[API Auth] Login Validation Error:'')])
         | AuthLogin (Some creds) \<Rightarrow>
             (case login rt f env d creds of (resp, lg) \<Rightarrow> (resp, d, lg))))"

section \<open>lib/utils.ts: calculateCompletionPercentage\<close>

text \<open>
  A JavaScript number is not-a-number, an infinity, or finite. Finite numbers are modelled
  as reals and their arithmetic as exact: the rounding of double precision and the sign
  of zero are not modelled. A value is \<open>undefined\<close>, \<open>null\<close>, a number, or a value of
  another type. The warning the function prints for a non-positive target is not part of
  its result and is left out.
\<close>

datatype jsnum = NaN | PosInf | NegInf | Fin real

datatype jsvalue = Undefined | Null | Number jsnum | NonNumber

fun js_le_zero :: "jsnum \<Rightarrow> bool" where
  \<comment> \<open>\<open>x <= 0\<close>\<close>
  "js_le_zero NaN = False"
| "js_le_zero PosInf = False"
| "js_le_zero NegInf = True"
| "js_le_zero (Fin x) = (x \<le> 0)"

fun js_div :: "jsnum \<Rightarrow> jsnum \<Rightarrow> jsnum" where
  "js_div NaN _ = NaN"
| "js_div _ NaN = NaN"
| "js_div (Fin x) (Fin y) =
     (if y = 0 then (if x = 0 then NaN else if 0 < x then PosInf else NegInf)
      else Fin (x / y))"
| "js_div (Fin x) PosInf = Fin 0"
| "js_div (Fin x) NegInf = Fin 0"
| "js_div PosInf (Fin y) = (if 0 \<le> y then PosInf else NegInf)"
| "js_div NegInf (Fin y) = (if 0 \<le> y then NegInf else PosInf)"
| "js_div _ _ = NaN"

fun js_mul :: "jsnum \<Rightarrow> jsnum \<Rightarrow> jsnum" where
  "js_mul NaN _ = NaN"
| "js_mul _ NaN = NaN"
| "js_mul (Fin x) (Fin y) = Fin (x * y)"
| "js_mul (Fin x) PosInf = (if x = 0 then NaN else if 0 < x then PosInf else NegInf)"
| "js_mul (Fin x) NegInf = (if x = 0 then NaN else if 0 < x then NegInf else PosInf)"
| "js_mul PosInf (Fin y) = (if y = 0 then NaN else if 0 < y then PosInf else NegInf)"
| "js_mul NegInf (Fin y) = (if y = 0 then NaN else if 0 < y then NegInf else PosInf)"
| "js_mul PosInf PosInf = PosInf"
| "js_mul NegInf NegInf = PosInf"
| "js_mul _ _ = NegInf"

fun Math_min :: "jsnum \<Rightarrow> jsnum \<Rightarrow> jsnum" where
  "Math_min NaN _ = NaN"
| "Math_min _ NaN = NaN"
| "Math_min NegInf _ = NegInf"
| "Math_min _ NegInf = NegInf"
| "Math_min PosInf y = y"
| "Math_min x PosInf = x"
| "Math_min (Fin x) (Fin y) = Fin (min x y)"

fun Math_max :: "jsnum \<Rightarrow> jsnum \<Rightarrow> jsnum" where
  "Math_max NaN _ = NaN"
| "Math_max _ NaN = NaN"
| "Math_max PosInf _ = PosInf"
| "Math_max _ PosInf = PosInf"
| "Math_max NegInf y = y"
| "Math_max x NegInf = x"
| "Math_max (Fin x) (Fin y) = Fin (max x y)"

fun invalid_target :: "jsvalue \<Rightarrow> bool" where
  \<comment> \<open>\<open>targetValue === null || targetValue === undefined || typeof targetValue !== 'number'
      || isNaN(targetValue) || targetValue <= 0\<close>\<close>
  "invalid_target Null = True"
| "invalid_target Undefined = True"
| "invalid_target NonNumber = True"
| "invalid_target (Number NaN) = True"
| "invalid_target (Number t) = js_le_zero t"

fun effective_current :: "jsvalue \<Rightarrow> jsnum" where
  \<comment> \<open>\<open>effectiveCurrentValue\<close>: the current value when it is a number other than
      not-a-number, else 0\<close>
  "effective_current (Number NaN) = Fin 0"
| "effective_current (Number c) = c"
| "effective_current _ = Fin 0"

definition calculateCompletionPercentage :: "jsvalue \<Rightarrow> jsvalue \<Rightarrow> jsnum option" where
  \<comment> \<open>\<open>None\<close> is the result \<open>null\<close>\<close>
  "calculateCompletionPercentage currentValue targetValue =
     (if invalid_target targetValue then None
      else
        (case targetValue of
           Number t \<Rightarrow>
             (let percentage = js_mul (js_div (effective_current currentValue) t) (Fin 100);
                  clampedPercentage = Math_max (Fin 0) (Math_min percentage (Fin 100))
              in Some (if clampedPercentage = NaN then Fin 0 else clampedPercentage))
         | _ \<Rightarrow> None))"

section \<open>Predicates of the statements\<close>

definition has_nonempty_userId :: "decoded \<Rightarrow> bool" where
  \<comment> \<open>the decoded payload is an object whose \<open>userId\<close> claim is a non-empty string\<close>
  "has_nonempty_userId dec =
     (case dec of
        DecodedString _ \<Rightarrow> False
      | DecodedObject claims \<Rightarrow>
          (case map_of claims ''userId'' of
             Some (VString userId) \<Rightarrow> userId \<noteq> []
           | _ \<Rightarrow> False))"

section \<open>A sample deployment\<close>

text \<open>
  One concrete runtime, environment and database, on which the statements below are
  instantiated: two users, Ann and Bob, each owning one goal with one progress entry; a
  token library that accepts Ann's token under the configured secret; no database fault.
\<close>

definition example_runtime :: runtime where
  "example_runtime =
     \<lparr>jwt_verify = (\<lambda>token secret.
        if token = ''token-of-a00000000000000000000001'' \<and> secret = ''secret''
        then Returns (DecodedObject [(''userId'', VString ''a00000000000000000000001'')])
        else Throws JsonWebTokenError ''invalid signature''),
      jwt_sign = (\<lambda>userId secret expiresIn. Some (''token-of-'' @ userId)),
      ObjectId_isValid = (\<lambda>s. length s = 24),
      newDate = (\<lambda>s. if s = ''2024-07-26T10:00:00.000Z'' then ValidDate 1721988000000
                       else InvalidDate),
      bcrypt_compare = (\<lambda>candidate hashed. Some (hashed = ''hash-of-'' @ candidate)),
      bcrypt_hash = (\<lambda>password. Some (''hash-of-'' @ password)),
      new_ObjectId = ''900000000000000000000009'',
      now = 1721988000000\<rparr>"

definition no_faults :: faults where
  "no_faults =
     \<lparr>connect_fails = False, user_find_fails = None, user_create_fails = None,
      goal_op_fails = None, progress_op_fails = None\<rparr>"

definition example_env :: process_env where
  "example_env =
     \<lparr>JWT_SECRET = Some ''secret'', JWT_EXPIRES_IN = Some ''1d'',
      NODE_ENV = Some ''production''\<rparr>"

definition ann :: user where
  "ann = \<lparr>user_id = ''a00000000000000000000001'', user_name = ''Ann'', user_email = ''ann@example.com'',
          user_password = ''hash-of-pw-ann'', user_createdAt = 0, user_updatedAt = 0\<rparr>"

definition bob :: user where
  "bob = \<lparr>user_id = ''b00000000000000000000002'', user_name = ''Bob'', user_email = ''bob@example.com'',
          user_password = ''hash-of-pw-bob'', user_createdAt = 0, user_updatedAt = 0\<rparr>"

definition goal_of_ann :: goal where
  "goal_of_ann =
     \<lparr>goal_id = ''c00000000000000000000001'', goal_userId = ''a00000000000000000000001'', goal_name = ''Run'',
      goal_description = None, goal_targetMetric = None, goal_targetUnit = None,
      goal_deadline = None, goal_createdAt = 0, goal_updatedAt = 0\<rparr>"

definition goal_of_bob :: goal where
  "goal_of_bob =
     \<lparr>goal_id = ''d00000000000000000000002'', goal_userId = ''b00000000000000000000002'', goal_name = ''Swim'',
      goal_description = None, goal_targetMetric = None, goal_targetUnit = None,
      goal_deadline = None, goal_createdAt = 0, goal_updatedAt = 0\<rparr>"

definition entry_of_ann :: progress_entry where
  "entry_of_ann =
     \<lparr>pe_id = ''e00000000000000000000001'', pe_goalId = ''c00000000000000000000001'', pe_userId = ''a00000000000000000000001'', pe_value = 5, pe_date = 10,
      pe_notes = None, pe_createdAt = 10, pe_updatedAt = 10\<rparr>"

definition entry_of_bob :: progress_entry where
  "entry_of_bob =
     \<lparr>pe_id = ''f00000000000000000000002'', pe_goalId = ''d00000000000000000000002'', pe_userId = ''b00000000000000000000002'', pe_value = 3, pe_date = 20,
      pe_notes = None, pe_createdAt = 20, pe_updatedAt = 20\<rparr>"

definition example_db :: db where
  "example_db =
     \<lparr>users = [ann, bob], goals = [goal_of_ann, goal_of_bob],
      progress = [entry_of_ann, entry_of_bob]\<rparr>"

definition example_request :: request where
  "example_request =
     \<lparr>cookies = [(''access_token'', ''token-of-a00000000000000000000001'')],
      origin = ''http://localhost:3000'', pathname = ''/api/goals''\<rparr>"

(* PROPERTIES *)

section \<open>Basic facts\<close>

lemma truthy_None_iff: "truthy v = None \<longleftrightarrow> v = None \<or> v = Some []"
  by (simp add: truthy_def split: option.splits)

lemma truthy_Some_iff: "truthy v = Some t \<longleftrightarrow> v = Some t \<and> t \<noteq> []"
  by (auto simp add: truthy_def split: option.splits)

section \<open>The middleware\<close>

text \<open>
  C4 (as amended). The middleware is the four-case algorithm, where "no cookie" means
  that the \<open>access_token\<close> cookie is absent or has the empty value, and "secret not
  configured" means that \<open>JWT_SECRET\<close> is unset or empty:
  (1) without a cookie, an API path gets the 401 JSON failure envelope and a page path a
  redirect to the login page;
  (2) with a cookie and without a secret, every path gets the 500 JSON response;
  (3) with both, when verification throws, an API path gets the 401 JSON failure
  envelope and a page path the redirect;
  (4) with both, when verification returns, the request proceeds.
\<close>

theorem middleware_four_cases:
  "(truthy (map_of (cookies request) ''access_token'') = None \<longrightarrow>
      fst (middleware vrfy env request) =
        (if startsWith (pathname request) ''/api/''
         then MwResponse (json (failure ''Authentication required'') 401)
         else MwRedirect (origin request @ ''/login'')))
   \<and> (truthy (map_of (cookies request) ''access_token'') \<noteq> None
        \<and> truthy (JWT_SECRET env) = None \<longrightarrow>
      fst (middleware vrfy env request) =
        MwResponse (json (failure ''Internal Server Error: JWT secret missing'') 500))
   \<and> (\<forall>token jwtSecret cls msg.
        truthy (map_of (cookies request) ''access_token'') = Some token
        \<and> truthy (JWT_SECRET env) = Some jwtSecret
        \<and> vrfy token jwtSecret = Throws cls msg \<longrightarrow>
      fst (middleware vrfy env request) =
        (if startsWith (pathname request) ''/api/''
         then MwResponse (json (failure ''Invalid or expired token'') 401)
         else MwRedirect (origin request @ ''/login'')))
   \<and> (\<forall>token jwtSecret dec.
        truthy (map_of (cookies request) ''access_token'') = Some token
        \<and> truthy (JWT_SECRET env) = Some jwtSecret
        \<and> vrfy token jwtSecret = Returns dec \<longrightarrow>
      fst (middleware vrfy env request) = MwNext)"
  by (auto simp add: middleware_def Let_def)

theorem middleware_four_cases_witness:
  "fst (middleware (\<lambda>token secret. Throws JsonWebTokenError ''invalid signature'')
          \<lparr>JWT_SECRET = Some ''secret'', JWT_EXPIRES_IN = None, NODE_ENV = None\<rparr>
          \<lparr>cookies = [], origin = ''http://localhost:3000'', pathname = ''/dashboard''\<rparr>)
     = MwRedirect ''http://localhost:3000/login''
   \<and> fst (middleware (\<lambda>token secret. Throws JsonWebTokenError ''invalid signature'')
          \<lparr>JWT_SECRET = None, JWT_EXPIRES_IN = None, NODE_ENV = None\<rparr>
          \<lparr>cookies = [(''access_token'', ''abc'')], origin = ''http://localhost:3000'',
           pathname = ''/dashboard''\<rparr>)
     = MwResponse (json (failure ''Internal Server Error: JWT secret missing'') 500)
   \<and> fst (middleware (\<lambda>token secret. Throws JsonWebTokenError ''invalid signature'')
          \<lparr>JWT_SECRET = Some ''secret'', JWT_EXPIRES_IN = None, NODE_ENV = None\<rparr>
          \<lparr>cookies = [(''access_token'', ''abc'')], origin = ''http://localhost:3000'',
           pathname = ''/api/goals''\<rparr>)
     = MwResponse (json (failure ''Invalid or expired token'') 401)
   \<and> fst (middleware (\<lambda>token secret. Returns (DecodedObject [(''userId'', VString ''u1'')]))
          \<lparr>JWT_SECRET = Some ''secret'', JWT_EXPIRES_IN = None, NODE_ENV = None\<rparr>
          \<lparr>cookies = [(''access_token'', ''abc'')], origin = ''http://localhost:3000'',
           pathname = ''/api/goals''\<rparr>)
     = MwNext"
  using
    middleware_four_cases [of
      "\<lparr>cookies = [], origin = ''http://localhost:3000'', pathname = ''/dashboard''\<rparr>"
      "\<lambda>token secret. Throws JsonWebTokenError ''invalid signature''"
      "\<lparr>JWT_SECRET = Some ''secret'', JWT_EXPIRES_IN = None, NODE_ENV = None\<rparr>"]
    middleware_four_cases [of
      "\<lparr>cookies = [(''access_token'', ''abc'')], origin = ''http://localhost:3000'',
        pathname = ''/dashboard''\<rparr>"
      "\<lambda>token secret. Throws JsonWebTokenError ''invalid signature''"
      "\<lparr>JWT_SECRET = None, JWT_EXPIRES_IN = None, NODE_ENV = None\<rparr>"]
    middleware_four_cases [of
      "\<lparr>cookies = [(''access_token'', ''abc'')], origin = ''http://localhost:3000'',
        pathname = ''/api/goals''\<rparr>"
      "\<lambda>token secret. Throws JsonWebTokenError ''invalid signature''"
      "\<lparr>JWT_SECRET = Some ''secret'', JWT_EXPIRES_IN = None, NODE_ENV = None\<rparr>"]
    middleware_four_cases [of
      "\<lparr>cookies = [(''access_token'', ''abc'')], origin = ''http://localhost:3000'',
        pathname = ''/api/goals''\<rparr>"
      "\<lambda>token secret. Returns (DecodedObject [(''userId'', VString ''u1'')])"
      "\<lparr>JWT_SECRET = Some ''secret'', JWT_EXPIRES_IN = None, NODE_ENV = None\<rparr>"]
  by (simp add: truthy_def startsWith_def)

text \<open>
  The claim as stated fails on a request whose \<open>access_token\<close> cookie is present with
  the empty value while no secret is configured: case (2) promises the 500 response, and
  the middleware answers as in case (1).
\<close>

theorem middleware_empty_cookie_counterexample:
  "map_of (cookies \<lparr>cookies = [(''access_token'', '''')], origin = ''http://localhost:3000'',
                    pathname = ''/api/goals''\<rparr>) ''access_token'' = Some ''''
   \<and> JWT_SECRET \<lparr>JWT_SECRET = None, JWT_EXPIRES_IN = None, NODE_ENV = None\<rparr> = None
   \<and> fst (middleware (\<lambda>token secret. Throws JsonWebTokenError ''jwt must be provided'')
          \<lparr>JWT_SECRET = None, JWT_EXPIRES_IN = None, NODE_ENV = None\<rparr>
          \<lparr>cookies = [(''access_token'', '''')], origin = ''http://localhost:3000'',
           pathname = ''/api/goals''\<rparr>)
     = MwResponse (json (failure ''Authentication required'') 401)
   \<and> fst (middleware (\<lambda>token secret. Throws JsonWebTokenError ''jwt must be provided'')
          \<lparr>JWT_SECRET = None, JWT_EXPIRES_IN = None, NODE_ENV = None\<rparr>
          \<lparr>cookies = [(''access_token'', '''')], origin = ''http://localhost:3000'',
           pathname = ''/api/goals''\<rparr>)
     \<noteq> MwResponse (json (failure ''Internal Server Error: JWT secret missing'') 500)"
  by (simp add: middleware_def truthy_def startsWith_def json_def failure_def)

text \<open>
  C3 (the code departs from the claim). The profile path is matched by none of the
  configured patterns, so the framework does not run the middleware on it: a request to
  \<open>/api/auth/profile\<close> that carries no cookie at all proceeds to the route handler.
\<close>

theorem profile_path_not_gated:
  "\<not> list_ex (\<lambda>pat. matches_pattern pat ''/api/auth/profile'') config_matcher
   \<and> middleware_gate vrfy env
        \<lparr>cookies = [], origin = ''http://localhost:3000'', pathname = ''/api/auth/profile''\<rparr>
       = (MwNext, [])
   \<and> fst (middleware vrfy env
        \<lparr>cookies = [], origin = ''http://localhost:3000'', pathname = ''/api/auth/profile''\<rparr>)
       = MwResponse (json (failure ''Authentication required'') 401)"
  by (simp add: middleware_gate_def middleware_def config_matcher_def matches_pattern_def
      endsWith_def startsWith_def truthy_def)

section \<open>Session verification in the endpoints\<close>

text \<open>
  C10. A request whose \<open>access_token\<close> cookie verifies under the configured secret, and
  whose decoded payload has no \<open>userId\<close> claim that is a non-empty string (the payload
  is not an object, or lacks the claim, or the claim is not a string, or it is the empty
  string), passes the middleware, while the verification of the goal-item endpoint and
  of the progress endpoint answers 401 with the message "Invalid token payload.".
\<close>

theorem payload_shape_checked_by_endpoints_only:
  assumes "truthy (map_of (cookies request) ''access_token'') = Some token"
    and "truthy (JWT_SECRET env) = Some jwtSecret"
    and "vrfy token jwtSecret = Returns dec"
    and "\<not> has_nonempty_userId dec"
  shows "fst (middleware vrfy env request) = MwNext
    \<and> fst (getVerifiedUserId_goalItem vrfy env request)
        = Inl (json (failure ''Invalid token payload.'') 401)
    \<and> fst (getVerifiedUserId_progress vrfy env request)
        = Inl (json (failure ''Invalid token payload.'') 401)"
  using assms
  by (auto simp add: middleware_def getVerifiedUserId_goalItem_def
      getVerifiedUserId_progress_def has_nonempty_userId_def Let_def
      split: decoded.splits option.splits claim_value.splits)

theorem payload_shape_checked_by_endpoints_only_witness:
  "fst (middleware (\<lambda>token secret. Returns (DecodedObject [(''userId'', VNumber 7)]))
          \<lparr>JWT_SECRET = Some ''secret'', JWT_EXPIRES_IN = None, NODE_ENV = None\<rparr>
          \<lparr>cookies = [(''access_token'', ''abc'')], origin = ''http://localhost:3000'',
           pathname = ''/api/progress''\<rparr>) = MwNext
   \<and> fst (getVerifiedUserId_goalItem
          (\<lambda>token secret. Returns (DecodedObject [(''userId'', VNumber 7)]))
          \<lparr>JWT_SECRET = Some ''secret'', JWT_EXPIRES_IN = None, NODE_ENV = None\<rparr>
          \<lparr>cookies = [(''access_token'', ''abc'')], origin = ''http://localhost:3000'',
           pathname = ''/api/progress''\<rparr>)
        = Inl (json (failure ''Invalid token payload.'') 401)
   \<and> fst (getVerifiedUserId_progress
          (\<lambda>token secret. Returns (DecodedObject [(''userId'', VNumber 7)]))
          \<lparr>JWT_SECRET = Some ''secret'', JWT_EXPIRES_IN = None, NODE_ENV = None\<rparr>
          \<lparr>cookies = [(''access_token'', ''abc'')], origin = ''http://localhost:3000'',
           pathname = ''/api/progress''\<rparr>)
        = Inl (json (failure ''Invalid token payload.'') 401)"
  by (rule payload_shape_checked_by_endpoints_only
        [where token = "''abc''" and jwtSecret = "''secret''"
           and dec = "DecodedObject [(''userId'', VNumber 7)]"])
     (simp_all add: truthy_def has_nonempty_userId_def)

text \<open>
  The copy in the progress endpoint returns what the copy in the goal-item endpoint
  returns, on every request; the copy in the goals-collection endpoint returns the same
  unless it returns the empty user id.
\<close>

lemma getVerifiedUserId_progress_eq_goalItem:
  "fst (getVerifiedUserId_progress vrfy env request)
     = fst (getVerifiedUserId_goalItem vrfy env request)"
  by (simp add: getVerifiedUserId_goalItem_def getVerifiedUserId_progress_def
      split: option.splits verify_outcome.splits decoded.splits claim_value.splits)

lemma getVerifiedUserId_goals_eq_goalItem:
  "fst (getVerifiedUserId_goals vrfy env request) \<noteq> Inr []
   \<Longrightarrow> fst (getVerifiedUserId_goals vrfy env request)
     = fst (getVerifiedUserId_goalItem vrfy env request)"
  by (simp add: getVerifiedUserId_goalItem_def getVerifiedUserId_goals_def
      split: option.splits verify_outcome.splits decoded.splits claim_value.splits)

text \<open>
  C2 (the code departs from the claim). On a token that verifies and whose \<open>userId\<close>
  claim is the empty string, the copy in the goals-collection endpoint returns the empty
  user id, while the copies in the goal-item and progress endpoints answer 401 with the
  message "Invalid token payload.".
\<close>

theorem getVerifiedUserId_copies_disagree_on_empty_userId:
  "fst (getVerifiedUserId_goals
          (\<lambda>token secret. Returns (DecodedObject [(''userId'', VString '''')]))
          \<lparr>JWT_SECRET = Some ''secret'', JWT_EXPIRES_IN = Some ''1d'', NODE_ENV = None\<rparr>
          \<lparr>cookies = [(''access_token'', ''signed.jwt.token'')],
           origin = ''http://localhost:3000'', pathname = ''/api/goals''\<rparr>)
     = Inr ''''
   \<and> fst (getVerifiedUserId_goalItem
          (\<lambda>token secret. Returns (DecodedObject [(''userId'', VString '''')]))
          \<lparr>JWT_SECRET = Some ''secret'', JWT_EXPIRES_IN = Some ''1d'', NODE_ENV = None\<rparr>
          \<lparr>cookies = [(''access_token'', ''signed.jwt.token'')],
           origin = ''http://localhost:3000'', pathname = ''/api/goals''\<rparr>)
     = Inl (json (failure ''Invalid token payload.'') 401)
   \<and> fst (getVerifiedUserId_progress
          (\<lambda>token secret. Returns (DecodedObject [(''userId'', VString '''')]))
          \<lparr>JWT_SECRET = Some ''secret'', JWT_EXPIRES_IN = Some ''1d'', NODE_ENV = None\<rparr>
          \<lparr>cookies = [(''access_token'', ''signed.jwt.token'')],
           origin = ''http://localhost:3000'', pathname = ''/api/goals''\<rparr>)
     = Inl (json (failure ''Invalid token payload.'') 401)"
  by (simp add: getVerifiedUserId_goals_def getVerifiedUserId_goalItem_def
      getVerifiedUserId_progress_def truthy_def)

section \<open>calculateCompletionPercentage\<close>

text \<open>
  C6. When the target is absent (\<open>undefined\<close> or \<open>null\<close>), not a number, zero or
  negative, the result is \<open>null\<close>. Otherwise the result is \<open>(current / target) * 100\<close>
  clamped to the interval from 0 to 100, where a current value that is absent or not a
  number counts as 0 and a not-a-number result becomes 0; so the result is always a
  finite number between 0 and 100. The five examples of the specification hold.
\<close>

theorem calculateCompletionPercentage_cases:
  "calculateCompletionPercentage c Undefined = None
   \<and> calculateCompletionPercentage c Null = None
   \<and> calculateCompletionPercentage c NonNumber = None
   \<and> calculateCompletionPercentage c (Number NaN) = None
   \<and> calculateCompletionPercentage c (Number NegInf) = None
   \<and> (t \<le> 0 \<longrightarrow> calculateCompletionPercentage c (Number (Fin t)) = None)
   \<and> (0 < t \<longrightarrow>
        calculateCompletionPercentage (Number (Fin x)) (Number (Fin t))
          = Some (Fin (max 0 (min (x / t * 100) 100)))
        \<and> calculateCompletionPercentage (Number PosInf) (Number (Fin t)) = Some (Fin 100)
        \<and> calculateCompletionPercentage (Number NegInf) (Number (Fin t)) = Some (Fin 0)
        \<and> calculateCompletionPercentage Undefined (Number (Fin t)) = Some (Fin 0)
        \<and> calculateCompletionPercentage Null (Number (Fin t)) = Some (Fin 0)
        \<and> calculateCompletionPercentage NonNumber (Number (Fin t)) = Some (Fin 0)
        \<and> calculateCompletionPercentage (Number NaN) (Number (Fin t)) = Some (Fin 0))
   \<and> calculateCompletionPercentage c (Number PosInf) = Some (Fin 0)
   \<and> (\<forall>r. calculateCompletionPercentage c tv = Some r \<longrightarrow>
          (\<exists>p. r = Fin p \<and> 0 \<le> p \<and> p \<le> 100))
   \<and> calculateCompletionPercentage (Number (Fin 50)) (Number (Fin 100)) = Some (Fin 50)
   \<and> calculateCompletionPercentage (Number (Fin 150)) (Number (Fin 100)) = Some (Fin 100)
   \<and> calculateCompletionPercentage (Number (Fin (- 10))) (Number (Fin 100)) = Some (Fin 0)
   \<and> calculateCompletionPercentage (Number (Fin 50)) (Number (Fin 0)) = None
   \<and> calculateCompletionPercentage Undefined (Number (Fin 100)) = Some (Fin 0)"
proof -
  have inf: "calculateCompletionPercentage c (Number PosInf) = Some (Fin 0)"
    by (cases c rule: effective_current.cases) (simp_all add: calculateCompletionPercentage_def)
  have invalid: "calculateCompletionPercentage c Undefined = None"
    "calculateCompletionPercentage c Null = None"
    "calculateCompletionPercentage c NonNumber = None"
    "calculateCompletionPercentage c (Number NaN) = None"
    "calculateCompletionPercentage c (Number NegInf) = None"
    "t \<le> 0 \<longrightarrow> calculateCompletionPercentage c (Number (Fin t)) = None"
    by (simp_all add: calculateCompletionPercentage_def)
  have valid: "0 < t \<longrightarrow>
        calculateCompletionPercentage (Number (Fin x)) (Number (Fin t))
          = Some (Fin (max 0 (min (x / t * 100) 100)))
        \<and> calculateCompletionPercentage (Number PosInf) (Number (Fin t)) = Some (Fin 100)
        \<and> calculateCompletionPercentage (Number NegInf) (Number (Fin t)) = Some (Fin 0)
        \<and> calculateCompletionPercentage Undefined (Number (Fin t)) = Some (Fin 0)
        \<and> calculateCompletionPercentage Null (Number (Fin t)) = Some (Fin 0)
        \<and> calculateCompletionPercentage NonNumber (Number (Fin t)) = Some (Fin 0)
        \<and> calculateCompletionPercentage (Number NaN) (Number (Fin t)) = Some (Fin 0)"
    by (simp add: calculateCompletionPercentage_def)
  have range: "\<forall>r. calculateCompletionPercentage c tv = Some r \<longrightarrow>
      (\<exists>p. r = Fin p \<and> 0 \<le> p \<and> p \<le> 100)"
    by (cases tv rule: invalid_target.cases; cases c rule: effective_current.cases)
       (auto simp add: calculateCompletionPercentage_def Let_def split: if_splits)
  have examples:
    "calculateCompletionPercentage (Number (Fin 50)) (Number (Fin 100)) = Some (Fin 50)"
    "calculateCompletionPercentage (Number (Fin 150)) (Number (Fin 100)) = Some (Fin 100)"
    "calculateCompletionPercentage (Number (Fin (- 10))) (Number (Fin 100)) = Some (Fin 0)"
    "calculateCompletionPercentage (Number (Fin 50)) (Number (Fin 0)) = None"
    "calculateCompletionPercentage Undefined (Number (Fin 100)) = Some (Fin 0)"
    by (simp_all add: calculateCompletionPercentage_def)
  from invalid valid inf range examples show ?thesis
    by blast
qed

theorem calculateCompletionPercentage_cases_witness:
  "calculateCompletionPercentage (Number (Fin 30)) (Number (Fin 40)) = Some (Fin 75)
   \<and> calculateCompletionPercentage (Number (Fin 30)) (Number (Fin (- 40))) = None
   \<and> (\<exists>p. Fin 75 = Fin p \<and> 0 \<le> p \<and> p \<le> 100)"
  using calculateCompletionPercentage_cases
          [of "Number (Fin 30)" "- 40" 30 "Number (Fin 40)"]
        calculateCompletionPercentage_cases
          [of "Number (Fin 30)" 40 30 "Number (Fin 40)"]
  by simp

section \<open>Login\<close>

lemma match_duration_Some_iff:
  "match_duration s = Some (ds, u) \<longleftrightarrow>
     s = ds @ [u] \<and> ds \<noteq> [] \<and> list_all isDigit ds \<and> u \<in> set (utf16 ''dhms'')"
proof (cases "s = []")
  case True
  then show ?thesis by (simp add: match_duration_def)
next
  case False
  then have "s = butlast s @ [last s]" by simp
  then show ?thesis
    unfolding match_duration_def using False
    by (metis (no_types, lifting) Pair_inject butlast_snoc last_snoc option.distinct(1)
        option.inject)
qed

lemma js_times_to_jsnat: "0 < k \<Longrightarrow> js_times (to_jsnat a) k = to_jsnat (a * k)"
proof -
  assume k: "0 < k"
  then have le: "a \<le> a * k" by simp
  show ?thesis
  proof (cases "a \<le> 9007199254740992")
    case True
    then show ?thesis by (simp add: to_jsnat_def)
  next
    case False
    with le have "\<not> a * k \<le> 9007199254740992" by linarith
    with False show ?thesis by (simp add: to_jsnat_def)
  qed
qed

lemma not_positive_to_jsnat: "not_positive (to_jsnat a) \<longleftrightarrow> a = 0"
  by (simp add: to_jsnat_def)

lemma units_dhms:
  "u \<in> set (utf16 ''dhms'') \<longleftrightarrow>
     u = of_char CHR ''d'' \<or> u = of_char CHR ''h'' \<or> u = of_char CHR ''m''
     \<or> u = of_char CHR ''s''"
  by (auto simp add: utf16_def)

lemma parseJwtExpiresIn_matched:
  assumes "match_duration (trim s) = Some (ds, u)"
  shows "parseJwtExpiresIn s =
     (if digits_value ds = 0 then None
      else if u = of_char CHR ''d'' then Some (to_jsnat (digits_value ds * 86400))
      else if u = of_char CHR ''h'' then Some (to_jsnat (digits_value ds * 3600))
      else if u = of_char CHR ''m'' then Some (to_jsnat (digits_value ds * 60))
      else Some (to_jsnat (digits_value ds)))"
proof -
  from assms have "u \<in> set (utf16 ''dhms'')"
    using match_duration_Some_iff [of "trim s" ds u] by simp
  then have u: "u = of_char CHR ''d'' \<or> u = of_char CHR ''h'' \<or> u = of_char CHR ''m''
     \<or> u = of_char CHR ''s''"
    by (simp only: units_dhms)
  have m: "digits_value ds * 24 * 60 * 60 = digits_value ds * 86400"
    "digits_value ds * 60 * 60 = digits_value ds * 3600"
    by simp_all
  from u show ?thesis
    using assms
    by (auto simp add: parseJwtExpiresIn_def parseInt10_def Let_def not_positive_to_jsnat
        js_times_to_jsnat mult.commute)
qed

lemma parseJwtExpiresIn_Some_iff:
  "parseJwtExpiresIn s = Some r \<longleftrightarrow>
     (\<exists>ds u. trim s = ds @ [u] \<and> ds \<noteq> [] \<and> list_all isDigit ds \<and> 0 < digits_value ds
        \<and> (u = of_char CHR ''d'' \<and> r = to_jsnat (digits_value ds * 86400)
           \<or> u = of_char CHR ''h'' \<and> r = to_jsnat (digits_value ds * 3600)
           \<or> u = of_char CHR ''m'' \<and> r = to_jsnat (digits_value ds * 60)
           \<or> u = of_char CHR ''s'' \<and> r = to_jsnat (digits_value ds)))"
  (is "?lhs \<longleftrightarrow> ?rhs")
proof (cases "match_duration (trim s)")
  case None
  then have "\<not> (\<exists>ds u. trim s = ds @ [u] \<and> ds \<noteq> [] \<and> list_all isDigit ds
      \<and> u \<in> set (utf16 ''dhms''))"
    using match_duration_Some_iff [of "trim s"] by simp
  then have "\<not> ?rhs" unfolding units_dhms by blast
  with None show ?thesis by (simp add: parseJwtExpiresIn_def)
next
  case (Some p)
  obtain ds u where p: "p = (ds, u)" by (cases p)
  with Some have md: "match_duration (trim s) = Some (ds, u)" by simp
  then have m: "trim s = ds @ [u]" "ds \<noteq> []" "list_all isDigit ds"
      "u \<in> set (utf16 ''dhms'')"
    using match_duration_Some_iff [of "trim s" ds u] by simp_all
  from m(4) have u: "u = of_char CHR ''d'' \<or> u = of_char CHR ''h'' \<or> u = of_char CHR ''m''
     \<or> u = of_char CHR ''s''"
    by (simp only: units_dhms)
  have uniq: "\<And>ds' u'. trim s = ds' @ [u'] \<Longrightarrow> ds' = ds \<and> u' = u"
    using m(1) by simp
  show ?thesis
  proof
    assume ?lhs
    with u m show ?rhs
      unfolding parseJwtExpiresIn_matched [OF md]
      by (intro exI [of _ ds] exI [of _ u]) (auto split: if_splits)
  next
    assume ?rhs
    then obtain ds' u' where h: "trim s = ds' @ [u']" "0 < digits_value ds'"
        "u' = of_char CHR ''d'' \<and> r = to_jsnat (digits_value ds' * 86400)
           \<or> u' = of_char CHR ''h'' \<and> r = to_jsnat (digits_value ds' * 3600)
           \<or> u' = of_char CHR ''m'' \<and> r = to_jsnat (digits_value ds' * 60)
           \<or> u' = of_char CHR ''s'' \<and> r = to_jsnat (digits_value ds')"
      by blast
    from uniq [OF h(1)] have e: "ds' = ds" "u' = u" by simp_all
    from h(2,3) show ?lhs
      unfolding e parseJwtExpiresIn_matched [OF md] by auto
  qed
qed

lemma to_jsnat_Exactly_iff: "to_jsnat a = Exactly n \<longleftrightarrow> a = n \<and> n \<le> 9007199254740992"
  by (auto simp add: to_jsnat_def)

lemma parse_succeeds_iff:
  "parseJwtExpiresIn s \<noteq> None \<longleftrightarrow>
     (\<exists>ds u. trim s = ds @ [u] \<and> ds \<noteq> [] \<and> list_all isDigit ds
        \<and> u \<in> set (utf16 ''dhms'') \<and> 0 < digits_value ds)"
proof -
  have "parseJwtExpiresIn s \<noteq> None \<longleftrightarrow> (\<exists>r. parseJwtExpiresIn s = Some r)" by auto
  also have "\<dots> \<longleftrightarrow> (\<exists>ds u. trim s = ds @ [u] \<and> ds \<noteq> [] \<and> list_all isDigit ds
        \<and> u \<in> set (utf16 ''dhms'') \<and> 0 < digits_value ds)"
    unfolding parseJwtExpiresIn_Some_iff units_dhms by blast
  finally show ?thesis .
qed

lemma parse_exact_iff:
  "parseJwtExpiresIn s = Some (Exactly n) \<longleftrightarrow>
     (\<exists>ds u. trim s = ds @ [u] \<and> ds \<noteq> [] \<and> list_all isDigit ds \<and> 0 < digits_value ds
        \<and> n \<le> 9007199254740992
        \<and> (u = of_char CHR ''d'' \<and> n = digits_value ds * 86400
           \<or> u = of_char CHR ''h'' \<and> n = digits_value ds * 3600
           \<or> u = of_char CHR ''m'' \<and> n = digits_value ds * 60
           \<or> u = of_char CHR ''s'' \<and> n = digits_value ds))"
proof -
  have e: "\<And>a. Exactly n = to_jsnat a \<longleftrightarrow> a = n \<and> n \<le> 9007199254740992"
    by (auto simp add: to_jsnat_def)
  show ?thesis
    unfolding parseJwtExpiresIn_Some_iff e by blast
qed

lemma login_sets_cookie:
  assumes "\<not> connect_fails f"
    and "UserModel_findOne f d (toLowerCase (lc_email creds)) = Inr (Some u)"
    and "fst (comparePassword rt u (lc_password creds))"
    and "truthy (JWT_SECRET env) = Some jwtSecret"
    and "truthy (JWT_EXPIRES_IN env) = Some jwtExpiresIn"
  shows "(parseJwtExpiresIn (utf16 jwtExpiresIn) = None \<longrightarrow>
            fst (POST_auth rt f env d (AuthLogin (Some creds)))
              = json (failure ''Internal Server Error: Invalid JWT expiration format.'') 500)
         \<and> (\<forall>maxAgeSeconds token.
               parseJwtExpiresIn (utf16 jwtExpiresIn) = Some maxAgeSeconds
               \<and> jwt_sign rt (user_id u) jwtSecret jwtExpiresIn = Some token \<longrightarrow>
               status (fst (POST_auth rt f env d (AuthLogin (Some creds)))) = 200
               \<and> set_cookies (fst (POST_auth rt f env d (AuthLogin (Some creds))))
                   = [\<lparr>cookie_name = ''access_token'', cookie_value = token,
                       httpOnly = True, secure = (NODE_ENV env = Some ''production''),
                       sameSite = ''lax'', path = ''/'', maxAge = maxAgeSeconds\<rparr>])"
proof -
  obtain m lg where c: "comparePassword rt u (lc_password creds) = (m, lg)"
    by (cases "comparePassword rt u (lc_password creds)")
  with assms(3) have m: "m" by simp
  show ?thesis
    using assms(1,2,4,5) c m
    by (simp add: POST_auth_def login_def Let_def access_token_cookie_def)
qed

text \<open>
  C7 (as amended). \<open>parseJwtExpiresIn\<close> succeeds on a string exactly when the string,
  with the white space at both ends removed, is a non-empty run of digits followed by
  one of the units d, h, m, s, and the digits denote a positive integer. It yields
  exactly \<open>n\<close> seconds when, in addition, \<open>n\<close> is that integer in seconds (a day is 86400,
  an hour 3600, a minute 60) and \<open>n\<close> does not exceed \<open>2^53\<close>; above \<open>2^53\<close> the parse
  still succeeds, with the double that JavaScript computes. On a login that found the
  user and matched the password, with the secret and the duration configured: when the
  parse fails the response is 500; when it yields a number of seconds and the token is
  signed, the response is 200 and sets the one cookie \<open>access_token\<close> holding the token,
  with HttpOnly, SameSite lax, path \<open>/\<close>, Secure exactly in production, and MaxAge the
  parsed number.
\<close>

theorem parseJwtExpiresIn_and_cookie_lifetime:
  "(parseJwtExpiresIn s \<noteq> None \<longleftrightarrow>
     (\<exists>ds u. trim s = ds @ [u] \<and> ds \<noteq> [] \<and> list_all isDigit ds
        \<and> u \<in> set (utf16 ''dhms'') \<and> 0 < digits_value ds))
   \<and> (parseJwtExpiresIn s = Some (Exactly n) \<longleftrightarrow>
     (\<exists>ds u. trim s = ds @ [u] \<and> ds \<noteq> [] \<and> list_all isDigit ds \<and> 0 < digits_value ds
        \<and> n \<le> 9007199254740992
        \<and> (u = of_char CHR ''d'' \<and> n = digits_value ds * 86400
           \<or> u = of_char CHR ''h'' \<and> n = digits_value ds * 3600
           \<or> u = of_char CHR ''m'' \<and> n = digits_value ds * 60
           \<or> u = of_char CHR ''s'' \<and> n = digits_value ds)))
   \<and> (\<not> connect_fails f
       \<and> UserModel_findOne f d (toLowerCase (lc_email creds)) = Inr (Some u)
       \<and> fst (comparePassword rt u (lc_password creds))
       \<and> truthy (JWT_SECRET env) = Some jwtSecret
       \<and> truthy (JWT_EXPIRES_IN env) = Some jwtExpiresIn \<longrightarrow>
         (parseJwtExpiresIn (utf16 jwtExpiresIn) = None \<longrightarrow>
            fst (POST_auth rt f env d (AuthLogin (Some creds)))
              = json (failure ''Internal Server Error: Invalid JWT expiration format.'') 500)
         \<and> (\<forall>maxAgeSeconds token.
               parseJwtExpiresIn (utf16 jwtExpiresIn) = Some maxAgeSeconds
               \<and> jwt_sign rt (user_id u) jwtSecret jwtExpiresIn = Some token \<longrightarrow>
               status (fst (POST_auth rt f env d (AuthLogin (Some creds)))) = 200
               \<and> set_cookies (fst (POST_auth rt f env d (AuthLogin (Some creds))))
                   = [\<lparr>cookie_name = ''access_token'', cookie_value = token,
                       httpOnly = True, secure = (NODE_ENV env = Some ''production''),
                       sameSite = ''lax'', path = ''/'', maxAge = maxAgeSeconds\<rparr>]))"
proof (intro conjI)
  show "(parseJwtExpiresIn s \<noteq> None \<longleftrightarrow>
     (\<exists>ds u. trim s = ds @ [u] \<and> ds \<noteq> [] \<and> list_all isDigit ds
        \<and> u \<in> set (utf16 ''dhms'') \<and> 0 < digits_value ds))"
    by (rule parse_succeeds_iff)
next
  show "(parseJwtExpiresIn s = Some (Exactly n) \<longleftrightarrow>
     (\<exists>ds u. trim s = ds @ [u] \<and> ds \<noteq> [] \<and> list_all isDigit ds \<and> 0 < digits_value ds
        \<and> n \<le> 9007199254740992
        \<and> (u = of_char CHR ''d'' \<and> n = digits_value ds * 86400
           \<or> u = of_char CHR ''h'' \<and> n = digits_value ds * 3600
           \<or> u = of_char CHR ''m'' \<and> n = digits_value ds * 60
           \<or> u = of_char CHR ''s'' \<and> n = digits_value ds)))"
    by (rule parse_exact_iff)
next
  show "\<not> connect_fails f
       \<and> UserModel_findOne f d (toLowerCase (lc_email creds)) = Inr (Some u)
       \<and> fst (comparePassword rt u (lc_password creds))
       \<and> truthy (JWT_SECRET env) = Some jwtSecret
       \<and> truthy (JWT_EXPIRES_IN env) = Some jwtExpiresIn \<longrightarrow>
         (parseJwtExpiresIn (utf16 jwtExpiresIn) = None \<longrightarrow>
            fst (POST_auth rt f env d (AuthLogin (Some creds)))
              = json (failure ''Internal Server Error: Invalid JWT expiration format.'') 500)
         \<and> (\<forall>maxAgeSeconds token.
               parseJwtExpiresIn (utf16 jwtExpiresIn) = Some maxAgeSeconds
               \<and> jwt_sign rt (user_id u) jwtSecret jwtExpiresIn = Some token \<longrightarrow>
               status (fst (POST_auth rt f env d (AuthLogin (Some creds)))) = 200
               \<and> set_cookies (fst (POST_auth rt f env d (AuthLogin (Some creds))))
                   = [\<lparr>cookie_name = ''access_token'', cookie_value = token,
                       httpOnly = True, secure = (NODE_ENV env = Some ''production''),
                       sameSite = ''lax'', path = ''/'', maxAge = maxAgeSeconds\<rparr>])"
  proof (rule impI, elim conjE)
    assume "\<not> connect_fails f"
      and "UserModel_findOne f d (toLowerCase (lc_email creds)) = Inr (Some u)"
      and "fst (comparePassword rt u (lc_password creds))"
      and "truthy (JWT_SECRET env) = Some jwtSecret"
      and "truthy (JWT_EXPIRES_IN env) = Some jwtExpiresIn"
    then show "(parseJwtExpiresIn (utf16 jwtExpiresIn) = None \<longrightarrow>
            fst (POST_auth rt f env d (AuthLogin (Some creds)))
              = json (failure ''Internal Server Error: Invalid JWT expiration format.'') 500)
         \<and> (\<forall>maxAgeSeconds token.
               parseJwtExpiresIn (utf16 jwtExpiresIn) = Some maxAgeSeconds
               \<and> jwt_sign rt (user_id u) jwtSecret jwtExpiresIn = Some token \<longrightarrow>
               status (fst (POST_auth rt f env d (AuthLogin (Some creds)))) = 200
               \<and> set_cookies (fst (POST_auth rt f env d (AuthLogin (Some creds))))
                   = [\<lparr>cookie_name = ''access_token'', cookie_value = token,
                       httpOnly = True, secure = (NODE_ENV env = Some ''production''),
                       sameSite = ''lax'', path = ''/'', maxAge = maxAgeSeconds\<rparr>])"
      by (rule login_sets_cookie)
  qed
qed

theorem parseJwtExpiresIn_and_cookie_lifetime_witness:
  "parseJwtExpiresIn (utf16 ''12h'') = Some (Exactly 43200)
   \<and> status (fst (POST_auth example_runtime no_faults example_env example_db
        (AuthLogin (Some \<lparr>lc_email = ''Ann@Example.com'', lc_password = ''pw-ann''\<rparr>)))) = 200
   \<and> set_cookies (fst (POST_auth example_runtime no_faults example_env example_db
        (AuthLogin (Some \<lparr>lc_email = ''Ann@Example.com'', lc_password = ''pw-ann''\<rparr>))))
      = [\<lparr>cookie_name = ''access_token'',
          cookie_value = ''token-of-a00000000000000000000001'', httpOnly = True,
          secure = True, sameSite = ''lax'', path = ''/'', maxAge = Exactly 86400\<rparr>]"
proof -
  have r: "\<exists>ds u. trim (utf16 ''12h'') = ds @ [u] \<and> ds \<noteq> [] \<and> list_all isDigit ds
      \<and> 0 < digits_value ds \<and> (43200::nat) \<le> 9007199254740992
      \<and> (u = of_char CHR ''d'' \<and> 43200 = digits_value ds * 86400
         \<or> u = of_char CHR ''h'' \<and> 43200 = digits_value ds * 3600
         \<or> u = of_char CHR ''m'' \<and> 43200 = digits_value ds * 60
         \<or> u = of_char CHR ''s'' \<and> 43200 = digits_value ds)"
    by (rule exI [of _ "utf16 ''12''"], rule exI [of _ "of_char CHR ''h''"])
       (simp add: trim_def isWhiteSpace_def isDigit_def digits_value_def utf16_def)
  have h: "\<not> connect_fails no_faults
    \<and> UserModel_findOne no_faults example_db
       (toLowerCase (lc_email \<lparr>lc_email = ''Ann@Example.com'', lc_password = ''pw-ann''\<rparr>))
      = Inr (Some ann)
    \<and> fst (comparePassword example_runtime ann
       (lc_password \<lparr>lc_email = ''Ann@Example.com'', lc_password = ''pw-ann''\<rparr>))
    \<and> truthy (JWT_SECRET example_env) = Some ''secret''
    \<and> truthy (JWT_EXPIRES_IN example_env) = Some ''1d''"
    by (simp add: no_faults_def example_db_def example_runtime_def example_env_def ann_def
          UserModel_findOne_def comparePassword_def truthy_def toLowerCase_def char_of_def
          bit_Suc_0_iff)
  have p: "parseJwtExpiresIn (utf16 ''1d'') = Some (Exactly 86400)
     \<and> jwt_sign example_runtime (user_id ann) ''secret'' ''1d''
         = Some ''token-of-a00000000000000000000001''"
    by (simp add: parseJwtExpiresIn_def match_duration_def trim_def isWhiteSpace_def
          isDigit_def parseInt10_def digits_value_def utf16_def to_jsnat_def
          example_runtime_def ann_def)
  have n: "NODE_ENV example_env = Some ''production''"
    by (simp add: example_env_def)
  from parseJwtExpiresIn_and_cookie_lifetime
         [of "utf16 ''12h''" 43200, THEN conjunct2, THEN conjunct1] r
  have a: "parseJwtExpiresIn (utf16 ''12h'') = Some (Exactly 43200)"
    by (rule iffD2)
  from parseJwtExpiresIn_and_cookie_lifetime
         [THEN conjunct2, THEN conjunct2, THEN mp, OF h, THEN conjunct2, rule_format, OF p] n
  have b: "status (fst (POST_auth example_runtime no_faults example_env example_db
        (AuthLogin (Some \<lparr>lc_email = ''Ann@Example.com'', lc_password = ''pw-ann''\<rparr>)))) = 200
   \<and> set_cookies (fst (POST_auth example_runtime no_faults example_env example_db
        (AuthLogin (Some \<lparr>lc_email = ''Ann@Example.com'', lc_password = ''pw-ann''\<rparr>))))
      = [\<lparr>cookie_name = ''access_token'',
          cookie_value = ''token-of-a00000000000000000000001'', httpOnly = True,
          secure = True, sameSite = ''lax'', path = ''/'', maxAge = Exactly 86400\<rparr>]"
    by simp
  from a b show ?thesis by (rule conjI)
qed

text \<open>
  The claim as stated fails in two ways. On a duration with white space around it: the
  string \<open>" 1d"\<close> does not match the pattern (its first character is a space, not a
  digit), and the parse succeeds on it, with one day. On a long run of digits: the
  digits of \<open>"9007199254740993s"\<close> denote an integer above \<open>2^53\<close>, which no JavaScript
  number holds, so the parse does not yield that integer.
\<close>

theorem parseJwtExpiresIn_padded_or_long_counterexample:
  "parseJwtExpiresIn (utf16 '' 1d'') = Some (Exactly 86400)
   \<and> match_duration (utf16 '' 1d'') = None
   \<and> \<not> isDigit (hd (utf16 '' 1d''))
   \<and> digits_value (utf16 ''9007199254740993'') = 9007199254740993
   \<and> parseJwtExpiresIn (utf16 ''9007199254740993s'') = Some Beyond
   \<and> parseJwtExpiresIn (utf16 ''9007199254740993s'') \<noteq> Some (Exactly 9007199254740993)"
  by (simp add: parseJwtExpiresIn_def match_duration_def trim_def isWhiteSpace_def
      isDigit_def parseInt10_def digits_value_def utf16_def to_jsnat_def)

text \<open>
  C8. On a login request that the schema accepts, when the lookup by the lower-cased
  email finds no user, or finds a user whose password comparison does not succeed, the
  response is 401 with the message "Invalid email or password." in both cases, and the
  database is unchanged. (The database is reachable and the lookup completes.)
\<close>

theorem login_failures_share_one_answer:
  assumes "\<not> connect_fails f" and "user_find_fails f = None"
    and "find (\<lambda>u. user_email u = toLowerCase (lc_email creds)) (users d) = None
         \<or> (\<exists>u. find (\<lambda>u. user_email u = toLowerCase (lc_email creds)) (users d) = Some u
                \<and> fst (comparePassword rt u (lc_password creds)) = False)"
  shows "fst (POST_auth rt f env d (AuthLogin (Some creds)))
           = json (failure ''Invalid email or password.'') 401
         \<and> fst (snd (POST_auth rt f env d (AuthLogin (Some creds)))) = d"
  using assms(3)
proof
  assume "find (\<lambda>u. user_email u = toLowerCase (lc_email creds)) (users d) = None"
  with assms(1,2) show ?thesis
    by (simp add: POST_auth_def login_def Let_def UserModel_findOne_def
        invalid_credentials_def)
next
  assume "\<exists>u. find (\<lambda>u. user_email u = toLowerCase (lc_email creds)) (users d) = Some u
                \<and> fst (comparePassword rt u (lc_password creds)) = False"
  then obtain u
    where u: "find (\<lambda>u. user_email u = toLowerCase (lc_email creds)) (users d) = Some u"
      and n: "fst (comparePassword rt u (lc_password creds)) = False"
    by blast
  obtain m lg where c: "comparePassword rt u (lc_password creds) = (m, lg)"
    by (cases "comparePassword rt u (lc_password creds)")
  with n have "\<not> m" by simp
  with assms(1,2) u c show ?thesis
    by (simp add: POST_auth_def login_def Let_def UserModel_findOne_def
        invalid_credentials_def)
qed

theorem login_failures_share_one_answer_witness:
  "fst (POST_auth example_runtime no_faults example_env example_db
          (AuthLogin (Some \<lparr>lc_email = ''Nobody@Example.com'', lc_password = ''pw-ann''\<rparr>)))
     = json (failure ''Invalid email or password.'') 401
   \<and> fst (POST_auth example_runtime no_faults example_env example_db
          (AuthLogin (Some \<lparr>lc_email = ''Ann@Example.com'', lc_password = ''wrong''\<rparr>)))
     = json (failure ''Invalid email or password.'') 401"
proof -
  have f: "\<not> connect_fails no_faults" "user_find_fails no_faults = None"
    by (simp_all add: no_faults_def)
  have a: "find (\<lambda>u. user_email u
             = toLowerCase (lc_email \<lparr>lc_email = ''Nobody@Example.com'',
                                      lc_password = ''pw-ann''\<rparr>))
             (users example_db) = None"
    by (simp add: example_db_def ann_def bob_def toLowerCase_def char_of_def bit_Suc_0_iff)
  have b: "\<exists>u. find (\<lambda>u. user_email u
             = toLowerCase (lc_email \<lparr>lc_email = ''Ann@Example.com'',
                                      lc_password = ''wrong''\<rparr>))
             (users example_db) = Some u
           \<and> fst (comparePassword example_runtime u
                    (lc_password \<lparr>lc_email = ''Ann@Example.com'',
                                   lc_password = ''wrong''\<rparr>)) = False"
    by (rule exI [of _ ann])
       (simp add: example_db_def example_runtime_def ann_def comparePassword_def
          toLowerCase_def char_of_def bit_Suc_0_iff)
  from login_failures_share_one_answer [OF f disjI1 [OF a]]
       login_failures_share_one_answer [OF f disjI2 [OF b]]
  show ?thesis by simp
qed

section \<open>The goal-item endpoint\<close>

lemma GET_goalItem_no_match:
  assumes "fst (getVerifiedUserId_goalItem (jwt_verify rt) env request) = Inr userId"
    and "find (owned_by goalId userId) (goals d) = None"
  shows "fst (GET_goalItem rt f env d request goalId) =
     (if goalId = [] \<or> \<not> ObjectId_isValid rt goalId then invalid_goal_id
      else if connect_fails f then no_connection
      else if goal_op_fails f \<noteq> None
      then json (failure ''Internal Server Error: Could not retrieve goal details.'') 500
      else not_found)"
proof -
  obtain lg where "getVerifiedUserId_goalItem (jwt_verify rt) env request = (Inr userId, lg)"
    using assms(1) by (cases "getVerifiedUserId_goalItem (jwt_verify rt) env request") simp
  with assms(2) show ?thesis
    by (auto simp add: GET_goalItem_def GoalModel_findOne_def Let_def)
qed

lemma DELETE_goalItem_no_match:
  assumes "fst (getVerifiedUserId_goalItem (jwt_verify rt) env request) = Inr userId"
    and "find (owned_by goalId userId) (goals d) = None"
  shows "fst (DELETE_goalItem rt f env d request goalId) =
     (if goalId = [] \<or> \<not> ObjectId_isValid rt goalId then invalid_goal_id
      else if connect_fails f then no_connection
      else if goal_op_fails f \<noteq> None
      then json (failure ''Internal Server Error: Could not delete goal.'') 500
      else not_found)"
proof -
  obtain lg where "getVerifiedUserId_goalItem (jwt_verify rt) env request = (Inr userId, lg)"
    using assms(1) by (cases "getVerifiedUserId_goalItem (jwt_verify rt) env request") simp
  moreover from assms(2) have "\<not> list_ex (owned_by goalId userId) (goals d)"
    by (simp add: find_None_iff list_ex_iff)
  ultimately show ?thesis
    by (auto simp add: DELETE_goalItem_def GoalModel_deleteOne_def Let_def)
qed

lemma PUT_goalItem_no_match_same:
  assumes "fst (getVerifiedUserId_goalItem (jwt_verify rt) env request) = Inr userId"
    and "find (owned_by goalId userId) (goals d) = None"
    and "find (owned_by goalId userId) (goals d') = None"
  shows "fst (PUT_goalItem rt f env d request rawBody goalId)
           = fst (PUT_goalItem rt f env d' request rawBody goalId)"
proof -
  obtain lg where "getVerifiedUserId_goalItem (jwt_verify rt) env request = (Inr userId, lg)"
    using assms(1) by (cases "getVerifiedUserId_goalItem (jwt_verify rt) env request") simp
  with assms(2,3) show ?thesis
    by (auto simp add: PUT_goalItem_def GoalModel_findOneAndUpdate_def Let_def
        split: json_body.splits option.splits db_error.splits)
qed

lemma PUT_goalItem_no_match:
  assumes "goalId \<noteq> []" and "ObjectId_isValid rt goalId"
    and "\<not> connect_fails f" and "goal_op_fails f = None"
    and "fst (getVerifiedUserId_goalItem (jwt_verify rt) env request) = Inr userId"
    and "find (owned_by goalId userId) (goals d) = None"
    and "\<not> no_keys (convert_deadline rt u)"
  shows "fst (PUT_goalItem rt f env d request (Validated u) goalId) = not_found"
proof -
  obtain lg where "getVerifiedUserId_goalItem (jwt_verify rt) env request = (Inr userId, lg)"
    using assms(5) by (cases "getVerifiedUserId_goalItem (jwt_verify rt) env request") simp
  with assms(1,2,3,4,6,7) show ?thesis
    by (simp add: PUT_goalItem_def GoalModel_findOneAndUpdate_def Let_def)
qed

lemma PUT_goalItem_not_an_update:
  assumes "goalId \<noteq> []" and "ObjectId_isValid rt goalId" and "\<not> connect_fails f"
    and "fst (getVerifiedUserId_goalItem (jwt_verify rt) env request) = Inr userId"
  shows "fst (PUT_goalItem rt f env d request Unparsable goalId)
        = json (failure ''Invalid request body: Could not parse JSON.'') 400
      \<and> fst (snd (PUT_goalItem rt f env d request Unparsable goalId)) = d
      \<and> (\<forall>fieldErrors.
            fst (PUT_goalItem rt f env d request (SchemaRejected fieldErrors) goalId)
              = json \<lparr>success = False,
                       message = Some ''Invalid goal update data provided.'',
                       error = Some ''Validation failed'', data = None,
                       validationErrors = Some fieldErrors\<rparr> 400
            \<and> fst (snd (PUT_goalItem rt f env d request (SchemaRejected fieldErrors) goalId))
                = d)
      \<and> (\<forall>u. no_keys (convert_deadline rt u) \<longrightarrow>
            fst (PUT_goalItem rt f env d request (Validated u) goalId)
              = json (failure ''No update data provided.'') 400
            \<and> fst (snd (PUT_goalItem rt f env d request (Validated u) goalId)) = d)"
proof -
  obtain lg where "getVerifiedUserId_goalItem (jwt_verify rt) env request = (Inr userId, lg)"
    using assms(4) by (cases "getVerifiedUserId_goalItem (jwt_verify rt) env request") simp
  with assms(1,2,3) show ?thesis
    by (simp add: PUT_goalItem_def Let_def)
qed

text \<open>
  C1 (as amended). For an authenticated GET, PUT or DELETE on the goal-item endpoint,
  whenever no goal with the requested id is owned by the requesting user, the response
  does not depend on the stored goals: it is the same whether the goal does not exist or
  belongs to another user. With a syntactically valid id, a reachable database and a
  lookup that completes, that response is 404 with the message "Goal not found or you do
  not have permission." for GET, for DELETE, and for a PUT whose body passes the schema
  and still holds a field to update after the deadline conversion. A PUT with a valid id,
  on a reachable database, whose body cannot be parsed, or is rejected by the schema, or
  holds no field to update, is answered 400 with that case's message and leaves the
  database as it was, whatever goals are stored.
\<close>

theorem goal_item_not_found_hides_the_cause:
  "(fst (getVerifiedUserId_goalItem (jwt_verify rt) env request) = Inr userId
    \<and> find (owned_by goalId userId) (goals d) = None
    \<and> find (owned_by goalId userId) (goals d') = None \<longrightarrow>
      fst (GET_goalItem rt f env d request goalId)
        = fst (GET_goalItem rt f env d' request goalId)
      \<and> fst (PUT_goalItem rt f env d request rawBody goalId)
        = fst (PUT_goalItem rt f env d' request rawBody goalId)
      \<and> fst (DELETE_goalItem rt f env d request goalId)
        = fst (DELETE_goalItem rt f env d' request goalId))
   \<and> (goalId \<noteq> [] \<and> ObjectId_isValid rt goalId
      \<and> \<not> connect_fails f \<and> goal_op_fails f = None
      \<and> fst (getVerifiedUserId_goalItem (jwt_verify rt) env request) = Inr userId
      \<and> find (owned_by goalId userId) (goals d) = None \<longrightarrow>
      fst (GET_goalItem rt f env d request goalId)
        = json (failure ''Goal not found or you do not have permission.'') 404
      \<and> fst (DELETE_goalItem rt f env d request goalId)
        = json (failure ''Goal not found or you do not have permission.'') 404
      \<and> (\<forall>u. \<not> no_keys (convert_deadline rt u) \<longrightarrow>
            fst (PUT_goalItem rt f env d request (Validated u) goalId)
              = json (failure ''Goal not found or you do not have permission.'') 404))
   \<and> (goalId \<noteq> [] \<and> ObjectId_isValid rt goalId \<and> \<not> connect_fails f
      \<and> fst (getVerifiedUserId_goalItem (jwt_verify rt) env request) = Inr userId \<longrightarrow>
      fst (PUT_goalItem rt f env d request Unparsable goalId)
        = json (failure ''Invalid request body: Could not parse JSON.'') 400
      \<and> fst (snd (PUT_goalItem rt f env d request Unparsable goalId)) = d
      \<and> (\<forall>fieldErrors.
            fst (PUT_goalItem rt f env d request (SchemaRejected fieldErrors) goalId)
              = json \<lparr>success = False,
                       message = Some ''Invalid goal update data provided.'',
                       error = Some ''Validation failed'', data = None,
                       validationErrors = Some fieldErrors\<rparr> 400
            \<and> fst (snd (PUT_goalItem rt f env d request (SchemaRejected fieldErrors) goalId))
                = d)
      \<and> (\<forall>u. no_keys (convert_deadline rt u) \<longrightarrow>
            fst (PUT_goalItem rt f env d request (Validated u) goalId)
              = json (failure ''No update data provided.'') 400
            \<and> fst (snd (PUT_goalItem rt f env d request (Validated u) goalId)) = d))"
proof (intro conjI impI; elim conjE)
  assume a: "fst (getVerifiedUserId_goalItem (jwt_verify rt) env request) = Inr userId"
    and n: "find (owned_by goalId userId) (goals d) = None"
    and n': "find (owned_by goalId userId) (goals d') = None"
  show "fst (GET_goalItem rt f env d request goalId)
        = fst (GET_goalItem rt f env d' request goalId)"
    by (simp only: GET_goalItem_no_match [OF a n] GET_goalItem_no_match [OF a n'])
  show "fst (PUT_goalItem rt f env d request rawBody goalId)
        = fst (PUT_goalItem rt f env d' request rawBody goalId)"
    by (rule PUT_goalItem_no_match_same [OF a n n'])
  show "fst (DELETE_goalItem rt f env d request goalId)
        = fst (DELETE_goalItem rt f env d' request goalId)"
    by (simp only: DELETE_goalItem_no_match [OF a n] DELETE_goalItem_no_match [OF a n'])
next
  assume v: "goalId \<noteq> []" "ObjectId_isValid rt goalId"
    and c: "\<not> connect_fails f" "goal_op_fails f = None"
    and a: "fst (getVerifiedUserId_goalItem (jwt_verify rt) env request) = Inr userId"
    and n: "find (owned_by goalId userId) (goals d) = None"
  show "fst (GET_goalItem rt f env d request goalId)
        = json (failure ''Goal not found or you do not have permission.'') 404"
    using v c by (simp add: GET_goalItem_no_match [OF a n] not_found_def)
  show "fst (DELETE_goalItem rt f env d request goalId)
        = json (failure ''Goal not found or you do not have permission.'') 404"
    using v c by (simp add: DELETE_goalItem_no_match [OF a n] not_found_def)
  show "\<forall>u. \<not> no_keys (convert_deadline rt u) \<longrightarrow>
            fst (PUT_goalItem rt f env d request (Validated u) goalId)
              = json (failure ''Goal not found or you do not have permission.'') 404"
    using PUT_goalItem_no_match [OF v c a n] by (simp add: not_found_def)
next
  assume v: "goalId \<noteq> []" "ObjectId_isValid rt goalId"
    and c: "\<not> connect_fails f"
    and a: "fst (getVerifiedUserId_goalItem (jwt_verify rt) env request) = Inr userId"
  note r = PUT_goalItem_not_an_update [OF v c a]
  show "fst (PUT_goalItem rt f env d request Unparsable goalId)
        = json (failure ''Invalid request body: Could not parse JSON.'') 400"
    by (rule r [THEN conjunct1])
  show "fst (snd (PUT_goalItem rt f env d request Unparsable goalId)) = d"
    by (rule r [THEN conjunct2, THEN conjunct1])
  show "\<forall>fieldErrors.
            fst (PUT_goalItem rt f env d request (SchemaRejected fieldErrors) goalId)
              = json \<lparr>success = False,
                       message = Some ''Invalid goal update data provided.'',
                       error = Some ''Validation failed'', data = None,
                       validationErrors = Some fieldErrors\<rparr> 400
            \<and> fst (snd (PUT_goalItem rt f env d request (SchemaRejected fieldErrors) goalId))
                = d"
    by (rule r [THEN conjunct2, THEN conjunct2, THEN conjunct1])
  show "\<forall>u. no_keys (convert_deadline rt u) \<longrightarrow>
            fst (PUT_goalItem rt f env d request (Validated u) goalId)
              = json (failure ''No update data provided.'') 400
            \<and> fst (snd (PUT_goalItem rt f env d request (Validated u) goalId)) = d"
    by (rule r [THEN conjunct2, THEN conjunct2, THEN conjunct2])
qed

lemma ann_is_authenticated:
  "fst (getVerifiedUserId_goalItem (jwt_verify example_runtime) example_env example_request)
     = Inr ''a00000000000000000000001''"
  "fst (getVerifiedUserId_progress (jwt_verify example_runtime) example_env example_request)
     = Inr ''a00000000000000000000001''"
  by (simp_all add: getVerifiedUserId_goalItem_def getVerifiedUserId_progress_def
      example_runtime_def example_env_def example_request_def truthy_def)

lemma example_facts:
  "ObjectId_isValid example_runtime ''d00000000000000000000002''"
  "ObjectId_isValid example_runtime ''c00000000000000000000001''"
  "\<not> connect_fails no_faults" "goal_op_fails no_faults = None"
  "progress_op_fails no_faults = None"
  "find (owned_by ''d00000000000000000000002'' ''a00000000000000000000001'') (goals example_db) = None"
  "find (owned_by ''d00000000000000000000002'' ''a00000000000000000000001'') (goals (example_db\<lparr>goals := [goal_of_ann]\<rparr>)) = None"
  "find (owned_by ''c00000000000000000000001'' ''a00000000000000000000001'') (goals example_db) = Some goal_of_ann"
  by (simp_all add: example_runtime_def no_faults_def example_db_def owned_by_def
      goal_of_ann_def goal_of_bob_def)

theorem goal_item_not_found_hides_the_cause_witness:
  "fst (GET_goalItem example_runtime no_faults example_env example_db example_request ''d00000000000000000000002'')
     = json (failure ''Goal not found or you do not have permission.'') 404
   \<and> fst (GET_goalItem example_runtime no_faults example_env
            (example_db\<lparr>goals := [goal_of_ann]\<rparr>) example_request ''d00000000000000000000002'')
     = json (failure ''Goal not found or you do not have permission.'') 404
   \<and> fst (DELETE_goalItem example_runtime no_faults example_env example_db example_request
            ''d00000000000000000000002'')
     = json (failure ''Goal not found or you do not have permission.'') 404
   \<and> fst (DELETE_goalItem example_runtime no_faults example_env
            (example_db\<lparr>goals := [goal_of_ann]\<rparr>) example_request ''d00000000000000000000002'')
     = json (failure ''Goal not found or you do not have permission.'') 404
   \<and> fst (PUT_goalItem example_runtime no_faults example_env example_db example_request
            (Validated \<lparr>upd_name = Some ''Walk'', upd_description = None,
               upd_targetMetric = None, upd_targetUnit = None, upd_deadline = None\<rparr>) ''d00000000000000000000002'')
     = json (failure ''Goal not found or you do not have permission.'') 404
   \<and> fst (PUT_goalItem example_runtime no_faults example_env
            (example_db\<lparr>goals := [goal_of_ann]\<rparr>) example_request
            (Validated \<lparr>upd_name = Some ''Walk'', upd_description = None,
               upd_targetMetric = None, upd_targetUnit = None, upd_deadline = None\<rparr>) ''d00000000000000000000002'')
     = json (failure ''Goal not found or you do not have permission.'') 404"
proof -
  have nonempty: "''d00000000000000000000002'' \<noteq> []" by simp
  have keys: "\<not> no_keys (convert_deadline example_runtime
      \<lparr>upd_name = Some ''Walk'', upd_description = None, upd_targetMetric = None,
       upd_targetUnit = None, upd_deadline = None\<rparr>)"
    by (simp add: no_keys_def convert_deadline_def)
  note same = goal_item_not_found_hides_the_cause
    [where rt = example_runtime and f = no_faults and env = example_env
       and request = example_request and goalId = "''d00000000000000000000002''" and userId = "''a00000000000000000000001''"
       and d = example_db and d' = "example_db\<lparr>goals := [goal_of_ann]\<rparr>"
       and rawBody = "Validated \<lparr>upd_name = Some ''Walk'', upd_description = None,
               upd_targetMetric = None, upd_targetUnit = None, upd_deadline = None\<rparr>",
     THEN conjunct1, THEN mp,
     OF conjI [OF ann_is_authenticated(1) conjI [OF example_facts(6) example_facts(7)]]]
  note here = goal_item_not_found_hides_the_cause
    [where rt = example_runtime and f = no_faults and env = example_env
       and request = example_request and goalId = "''d00000000000000000000002''" and userId = "''a00000000000000000000001''"
       and d = example_db,
     THEN conjunct2, THEN conjunct1, THEN mp,
     OF conjI [OF nonempty conjI [OF example_facts(1) conjI [OF example_facts(3)
          conjI [OF example_facts(4) conjI [OF ann_is_authenticated(1) example_facts(6)]]]]]]
  from here have put: "fst (PUT_goalItem example_runtime no_faults example_env example_db
       example_request
       (Validated \<lparr>upd_name = Some ''Walk'', upd_description = None,
          upd_targetMetric = None, upd_targetUnit = None, upd_deadline = None\<rparr>) ''d00000000000000000000002'')
     = json (failure ''Goal not found or you do not have permission.'') 404"
    using keys by blast
  note s1 = same [THEN conjunct1]
    and s2 = same [THEN conjunct2, THEN conjunct1]
    and s3 = same [THEN conjunct2, THEN conjunct2]
  note g = here [THEN conjunct1]
    and dl = here [THEN conjunct2, THEN conjunct1]
  show ?thesis
    by (intro conjI)
       (rule g, rule trans [OF s1 [symmetric] g],
        rule dl, rule trans [OF s3 [symmetric] dl],
        rule put, rule trans [OF s2 [symmetric] put])
qed

text \<open>
  The claim as stated fails on a PUT whose body is the empty update: the request is
  authenticated, the id is valid, the goal belongs to another user, and the response is
  400 "No update data provided.", not 404.
\<close>

theorem put_empty_update_counterexample:
  "fst (getVerifiedUserId_goalItem (jwt_verify example_runtime) example_env example_request)
     = Inr ''a00000000000000000000001''
   \<and> ObjectId_isValid example_runtime ''d00000000000000000000002''
   \<and> find (owned_by ''d00000000000000000000002'' ''a00000000000000000000001'') (goals example_db) = None
   \<and> fst (PUT_goalItem example_runtime no_faults example_env example_db example_request
            (Validated \<lparr>upd_name = None, upd_description = None, upd_targetMetric = None,
               upd_targetUnit = None, upd_deadline = None\<rparr>) ''d00000000000000000000002'')
     = json (failure ''No update data provided.'') 400
   \<and> status (fst (PUT_goalItem example_runtime no_faults example_env example_db
            example_request
            (Validated \<lparr>upd_name = None, upd_description = None, upd_targetMetric = None,
               upd_targetUnit = None, upd_deadline = None\<rparr>) ''d00000000000000000000002'')) \<noteq> 404"
proof -
  obtain lg where "getVerifiedUserId_goalItem (jwt_verify example_runtime) example_env
      example_request = (Inr ''a00000000000000000000001'', lg)"
    using ann_is_authenticated(1)
    by (cases "getVerifiedUserId_goalItem (jwt_verify example_runtime) example_env
          example_request") simp
  then have "fst (PUT_goalItem example_runtime no_faults example_env example_db
            example_request
            (Validated \<lparr>upd_name = None, upd_description = None, upd_targetMetric = None,
               upd_targetUnit = None, upd_deadline = None\<rparr>) ''d00000000000000000000002'')
     = json (failure ''No update data provided.'') 400"
    using example_facts(1,3)
    by (simp add: PUT_goalItem_def convert_deadline_def no_keys_def)
  with ann_is_authenticated(1) example_facts(1,6) show ?thesis
    by (simp add: json_def)
qed

text \<open>
  C9. On an authenticated DELETE with a valid id and a reachable database, when the
  deletion of the goal, filtered by id and owner, reports a deleted document: the response
  is 204 without a body; the goal is removed and stays removed; when the deletion of the
  progress entries completes, no entry referencing the goal id is left; when it throws,
  the entries stay, an error is logged, and the response is the same 204.
\<close>

theorem delete_cascade_is_best_effort:
  assumes "goalId \<noteq> []" and "ObjectId_isValid rt goalId" and "\<not> connect_fails f"
    and "fst (getVerifiedUserId_goalItem (jwt_verify rt) env request) = Inr userId"
    and "GoalModel_deleteOne f d goalId userId = (Inr deletedCount, d1)"
    and "deletedCount \<noteq> 0"
  shows "fst (DELETE_goalItem rt f env d request goalId)
           = \<lparr>status = 204, body = None, set_cookies = []\<rparr>
    \<and> goals (fst (snd (DELETE_goalItem rt f env d request goalId)))
        = remove_first (owned_by goalId userId) (goals d)
    \<and> length (goals (fst (snd (DELETE_goalItem rt f env d request goalId))))
        < length (goals d)
    \<and> (progress_op_fails f = None \<longrightarrow>
         progress (fst (snd (DELETE_goalItem rt f env d request goalId)))
           = filter (\<lambda>p. pe_goalId p \<noteq> goalId) (progress d))
    \<and> (progress_op_fails f \<noteq> None \<longrightarrow>
         progress (fst (snd (DELETE_goalItem rt f env d request goalId))) = progress d
         \<and> (ConsoleError,
             ''[API Goal Detail DELETE] Error deleting progress entries for goalId ''
               @ goalId @ '':'')
           \<in> set (snd (snd (DELETE_goalItem rt f env d request goalId))))"
proof -
  obtain lg where au: "getVerifiedUserId_goalItem (jwt_verify rt) env request = (Inr userId, lg)"
    using assms(4) by (cases "getVerifiedUserId_goalItem (jwt_verify rt) env request") simp
  from assms(5,6) have g: "goal_op_fails f = None"
    and ex: "list_ex (owned_by goalId userId) (goals d)"
    and d1: "d1 = d\<lparr>goals := remove_first (owned_by goalId userId) (goals d)\<rparr>"
    by (auto simp add: GoalModel_deleteOne_def split: option.splits if_splits)
  have len: "length (remove_first P xs) < length xs" if "list_ex P xs" for P and xs :: "goal list"
    using that by (induction xs) auto
  show ?thesis
    using assms(1,2,3,5,6) au d1 len [OF ex]
    by (cases "progress_op_fails f")
       (simp_all add: DELETE_goalItem_def ProgressModel_deleteMany_def Let_def)
qed


theorem delete_cascade_is_best_effort_witness:
  "fst (DELETE_goalItem example_runtime no_faults example_env example_db example_request
          ''c00000000000000000000001'') = \<lparr>status = 204, body = None, set_cookies = []\<rparr>
   \<and> goals (fst (snd (DELETE_goalItem example_runtime no_faults example_env example_db
          example_request ''c00000000000000000000001''))) = [goal_of_bob]
   \<and> progress (fst (snd (DELETE_goalItem example_runtime no_faults example_env example_db
          example_request ''c00000000000000000000001''))) = [entry_of_bob]
   \<and> fst (DELETE_goalItem example_runtime (no_faults\<lparr>progress_op_fails := Some OtherDbError\<rparr>)
          example_env example_db example_request ''c00000000000000000000001'')
       = \<lparr>status = 204, body = None, set_cookies = []\<rparr>
   \<and> goals (fst (snd (DELETE_goalItem example_runtime
          (no_faults\<lparr>progress_op_fails := Some OtherDbError\<rparr>) example_env example_db
          example_request ''c00000000000000000000001''))) = [goal_of_bob]
   \<and> progress (fst (snd (DELETE_goalItem example_runtime
          (no_faults\<lparr>progress_op_fails := Some OtherDbError\<rparr>) example_env example_db
          example_request ''c00000000000000000000001''))) = [entry_of_ann, entry_of_bob]"
proof -
  have nonempty: "''c00000000000000000000001'' \<noteq> []" by simp
  have del: "GoalModel_deleteOne no_faults example_db ''c00000000000000000000001'' ''a00000000000000000000001''
      = (Inr 1, example_db\<lparr>goals := [goal_of_bob]\<rparr>)"
    "GoalModel_deleteOne (no_faults\<lparr>progress_op_fails := Some OtherDbError\<rparr>) example_db
        ''c00000000000000000000001'' ''a00000000000000000000001''
      = (Inr 1, example_db\<lparr>goals := [goal_of_bob]\<rparr>)"
    by (simp_all add: GoalModel_deleteOne_def no_faults_def example_db_def owned_by_def
        goal_of_ann_def goal_of_bob_def)
  have one: "(1::nat) \<noteq> 0" by simp
  have c: "\<not> connect_fails (no_faults\<lparr>progress_op_fails := Some OtherDbError\<rparr>)"
    by (simp add: no_faults_def)
  have ev: "remove_first (owned_by ''c00000000000000000000001'' ''a00000000000000000000001'') (goals example_db) = [goal_of_bob]"
    "filter (\<lambda>p. pe_goalId p \<noteq> ''c00000000000000000000001'') (progress example_db) = [entry_of_bob]"
    "progress example_db = [entry_of_ann, entry_of_bob]"
    "progress_op_fails (no_faults\<lparr>progress_op_fails := Some OtherDbError\<rparr>) \<noteq> None"
    by (simp_all add: example_db_def owned_by_def goal_of_ann_def goal_of_bob_def
        entry_of_ann_def entry_of_bob_def)
  from delete_cascade_is_best_effort
         [OF nonempty example_facts(2) example_facts(3) ann_is_authenticated(1) del(1) one]
       delete_cascade_is_best_effort
         [OF nonempty example_facts(2) c ann_is_authenticated(1) del(2) one]
       example_facts(5) ev
  show ?thesis by simp
qed

section \<open>The progress endpoint\<close>

lemma POST_progress_not_owned:
  assumes "\<not> connect_fails f" and "goal_op_fails f = None"
    and "fst (getVerifiedUserId_progress (jwt_verify rt) env request) = Inr userId"
    and "find (owned_by (lp_goalId v) userId) (goals d) = None"
  shows "fst (POST_progress rt f env d request (Validated v))
           = json (failure ''Goal not found or you do not have permission.'') 404
         \<and> fst (snd (POST_progress rt f env d request (Validated v))) = d"
proof -
  obtain lg where "getVerifiedUserId_progress (jwt_verify rt) env request = (Inr userId, lg)"
    using assms(3) by (cases "getVerifiedUserId_progress (jwt_verify rt) env request") simp
  with assms(1,2,4) show ?thesis
    by (simp add: POST_progress_def GoalModel_findOne_def not_found_def Let_def)
qed

lemma POST_progress_persists_only_owned:
  "fst (snd (POST_progress rt f env d request rawBody)) = d
   \<or> (\<exists>userId v g e.
         fst (getVerifiedUserId_progress (jwt_verify rt) env request) = Inr userId
         \<and> rawBody = Validated v
         \<and> find (owned_by (lp_goalId v) userId) (goals d) = Some g
         \<and> fst (snd (POST_progress rt f env d request rawBody))
             = d\<lparr>progress := progress d @ [e]\<rparr>
         \<and> pe_goalId e = lp_goalId v \<and> pe_userId e = userId
         \<and> status (fst (POST_progress rt f env d request rawBody)) = 201)"
proof -
  obtain a lg where au: "getVerifiedUserId_progress (jwt_verify rt) env request = (a, lg)"
    by (cases "getVerifiedUserId_progress (jwt_verify rt) env request")
  show ?thesis
  proof (cases a)
    case (Inl r)
    with au show ?thesis by (simp add: POST_progress_def)
  next
    case (Inr userId)
    show ?thesis
    proof (cases rawBody)
      case Unparsable
      with au Inr show ?thesis by (simp add: POST_progress_def)
    next
      case (SchemaRejected fe)
      with au Inr show ?thesis by (simp add: POST_progress_def)
    next
      case (Validated v)
      show ?thesis
      proof (cases "GoalModel_findOne f d (lp_goalId v) userId")
        case (Inl e)
        with au Inr Validated show ?thesis
          by (simp add: POST_progress_def Let_def split: db_error.splits)
      next
        case r: (Inr og)
        show ?thesis
        proof (cases og)
          case None
          with au Inr Validated r show ?thesis
            by (simp add: POST_progress_def Let_def)
        next
          case (Some g)
          with r have fnd: "find (owned_by (lp_goalId v) userId) (goals d) = Some g"
            by (simp add: GoalModel_findOne_def split: option.splits)
          obtain res d' where fields:
            "ProgressModel_create f rt d v userId (newDate rt (lp_date v)) = (res, d')"
            by (cases "ProgressModel_create f rt d v userId (newDate rt (lp_date v))")
          show ?thesis
          proof -
            show ?thesis
            proof (cases res)
              case (Inl e)
              with fields have "d' = d"
                by (auto simp add: ProgressModel_create_def Let_def split: option.splits jsdate.splits)
              with au Inr Validated r Some fields Inl show ?thesis
                by (simp add: POST_progress_def Let_def split: db_error.splits)
            next
              case (Inr doc)
              with fields have "d' = d\<lparr>progress := progress d @ [doc]\<rparr>
                  \<and> pe_goalId doc = lp_goalId v \<and> pe_userId doc = userId"
                by (auto simp add: ProgressModel_create_def Let_def split: option.splits jsdate.splits)
              with au \<open>a = Inr userId\<close> Validated r Some fields Inr fnd show ?thesis
                by (auto simp add: POST_progress_def Let_def json_def)
            qed
          qed
        qed
      qed
    qed
  qed
qed


text \<open>
  C5. On an authenticated progress-creation request that the schema accepts, when no
  goal with the given id is owned by the caller (the database being reachable and the
  lookup completing), the response is 404 with the message of the goal endpoints and the
  database is unchanged. On every request, the handler either leaves the database as it
  was, or it appended exactly one progress entry, for a goal that exists and is owned by
  the authenticated caller, and the response is 201.
\<close>

theorem progress_needs_an_owned_goal:
  "(\<not> connect_fails f \<and> goal_op_fails f = None
    \<and> fst (getVerifiedUserId_progress (jwt_verify rt) env request) = Inr userId
    \<and> find (owned_by (lp_goalId v) userId) (goals d) = None \<longrightarrow>
      fst (POST_progress rt f env d request (Validated v))
        = json (failure ''Goal not found or you do not have permission.'') 404
      \<and> fst (snd (POST_progress rt f env d request (Validated v))) = d)
   \<and> (fst (snd (POST_progress rt f env d request rawBody)) = d
      \<or> (\<exists>userId v g e.
            fst (getVerifiedUserId_progress (jwt_verify rt) env request) = Inr userId
            \<and> rawBody = Validated v
            \<and> find (owned_by (lp_goalId v) userId) (goals d) = Some g
            \<and> fst (snd (POST_progress rt f env d request rawBody))
                = d\<lparr>progress := progress d @ [e]\<rparr>
            \<and> pe_goalId e = lp_goalId v \<and> pe_userId e = userId
            \<and> status (fst (POST_progress rt f env d request rawBody)) = 201))"
proof (rule conjI)
  show "\<not> connect_fails f \<and> goal_op_fails f = None
    \<and> fst (getVerifiedUserId_progress (jwt_verify rt) env request) = Inr userId
    \<and> find (owned_by (lp_goalId v) userId) (goals d) = None \<longrightarrow>
      fst (POST_progress rt f env d request (Validated v))
        = json (failure ''Goal not found or you do not have permission.'') 404
      \<and> fst (snd (POST_progress rt f env d request (Validated v))) = d"
    using POST_progress_not_owned [of f rt env request userId v d] by blast
next
  show "fst (snd (POST_progress rt f env d request rawBody)) = d
      \<or> (\<exists>userId v g e.
            fst (getVerifiedUserId_progress (jwt_verify rt) env request) = Inr userId
            \<and> rawBody = Validated v
            \<and> find (owned_by (lp_goalId v) userId) (goals d) = Some g
            \<and> fst (snd (POST_progress rt f env d request rawBody))
                = d\<lparr>progress := progress d @ [e]\<rparr>
            \<and> pe_goalId e = lp_goalId v \<and> pe_userId e = userId
            \<and> status (fst (POST_progress rt f env d request rawBody)) = 201)"
    by (rule POST_progress_persists_only_owned)
qed

theorem progress_needs_an_owned_goal_witness:
  "fst (POST_progress example_runtime no_faults example_env example_db example_request
          (Validated \<lparr>lp_goalId = ''d00000000000000000000002'', lp_value = 4,
             lp_date = ''2024-07-26T10:00:00.000Z'', lp_notes = None\<rparr>))
     = json (failure ''Goal not found or you do not have permission.'') 404
   \<and> fst (snd (POST_progress example_runtime no_faults example_env example_db example_request
          (Validated \<lparr>lp_goalId = ''d00000000000000000000002'', lp_value = 4,
             lp_date = ''2024-07-26T10:00:00.000Z'', lp_notes = None\<rparr>))) = example_db
   \<and> status (fst (POST_progress example_runtime no_faults example_env example_db
          example_request
          (Validated \<lparr>lp_goalId = ''c00000000000000000000001'', lp_value = 4,
             lp_date = ''2024-07-26T10:00:00.000Z'', lp_notes = None\<rparr>))) = 201"
proof -
  have n: "find (owned_by (lp_goalId \<lparr>lp_goalId = ''d00000000000000000000002'', lp_value = 4,
             lp_date = ''2024-07-26T10:00:00.000Z'', lp_notes = None\<rparr>) ''a00000000000000000000001'')
           (goals example_db) = None"
    using example_facts(6) by simp
  note a = progress_needs_an_owned_goal
    [where f = no_faults and rt = example_runtime and env = example_env
       and request = example_request and userId = "''a00000000000000000000001''" and d = example_db
       and v = "\<lparr>lp_goalId = ''d00000000000000000000002'', lp_value = 4,
             lp_date = ''2024-07-26T10:00:00.000Z'', lp_notes = None\<rparr>",
     THEN conjunct1, THEN mp,
     OF conjI [OF example_facts(3) conjI [OF example_facts(4)
          conjI [OF ann_is_authenticated(2) n]]]]
  obtain lg where "getVerifiedUserId_progress (jwt_verify example_runtime) example_env
      example_request = (Inr ''a00000000000000000000001'', lg)"
    using ann_is_authenticated(2)
    by (cases "getVerifiedUserId_progress (jwt_verify example_runtime) example_env
          example_request") simp
  then have changed: "fst (snd (POST_progress example_runtime no_faults example_env example_db
          example_request
          (Validated \<lparr>lp_goalId = ''c00000000000000000000001'', lp_value = 4,
             lp_date = ''2024-07-26T10:00:00.000Z'', lp_notes = None\<rparr>))) \<noteq> example_db"
    using example_facts(3,4,5,8)
    by (simp add: POST_progress_def GoalModel_findOne_def ProgressModel_create_def Let_def
        example_runtime_def example_db_def)
  from progress_needs_an_owned_goal
    [where f = no_faults and rt = example_runtime and env = example_env
       and request = example_request and d = example_db
       and rawBody = "Validated \<lparr>lp_goalId = ''c00000000000000000000001'', lp_value = 4,
             lp_date = ''2024-07-26T10:00:00.000Z'', lp_notes = None\<rparr>",
     THEN conjunct2] changed
  have "status (fst (POST_progress example_runtime no_faults example_env example_db
          example_request
          (Validated \<lparr>lp_goalId = ''c00000000000000000000001'', lp_value = 4,
             lp_date = ''2024-07-26T10:00:00.000Z'', lp_notes = None\<rparr>))) = 201"
    by blast
  with a show ?thesis by simp
qed

end
